theory Spec2Isabelle
  imports Complex_Main
begin

section \<open>Python values and built-in conversions\<close>

text \<open>
  An engine evaluation line is a Python \<^verbatim>\<open>Dict[str, Any]\<close>. Its values are modelled by
  the dynamic types that can occur in it: \<^verbatim>\<open>None\<close>, \<^verbatim>\<open>int\<close> (unbounded), \<^verbatim>\<open>float\<close>,
  \<^verbatim>\<open>str\<close> and a list of strings (the principal variation). A \<^verbatim>\<open>bool\<close> behaves as the
  integer 0 or 1 under every operation used here, so it is covered by \<open>VInt\<close>.

  Python floats are modelled as real numbers: the not-a-number and infinite values
  are outside the model, and arithmetic is exact. All the arithmetic of the program is
  addition, subtraction, negation and comparison of centipawn values and piece values.

  A dictionary is an association list whose first binding of a key is the one looked
  up; \<^verbatim>\<open>d.get(k)\<close> yields \<^verbatim>\<open>None\<close> for a missing key.
\<close>

datatype pyval = VNone | VInt int | VFloat real | VStr string | VList "string list"

type_synonym line = "(string \<times> pyval) list"

definition dict_get :: "line \<Rightarrow> string \<Rightarrow> pyval" where
  "dict_get d k = (case map_of d k of None \<Rightarrow> VNone | Some v \<Rightarrow> v)"

text \<open>Characters that \<^verbatim>\<open>str.strip()\<close> removes (ASCII range of \<^verbatim>\<open>str.isspace\<close>).\<close>

definition py_isspace :: "char \<Rightarrow> bool" where
  "py_isspace c = ((of_char c :: nat) \<in> {9, 10, 11, 12, 13, 28, 29, 30, 31, 32})"

definition str_strip :: "string \<Rightarrow> string" where
  "str_strip s = rev (dropWhile py_isspace (rev (dropWhile py_isspace s)))"

definition is_digit :: "char \<Rightarrow> bool" where
  "is_digit c = (48 \<le> (of_char c :: nat) \<and> (of_char c :: nat) \<le> 57)"

definition digits_val :: "string \<Rightarrow> nat option" where
  "digits_val s =
     (if s \<noteq> [] \<and> list_all is_digit s
      then Some (foldl (\<lambda>a c. 10 * a + (of_char c - 48)) 0 s) else None)"

text \<open>
  \<^verbatim>\<open>int(s)\<close> and \<^verbatim>\<open>float(s)\<close> on a string: surrounding whitespace, an optional sign and
  ASCII decimal digits; for \<^verbatim>\<open>float\<close> also a fraction and a decimal exponent. \<open>None\<close>
  stands for \<^verbatim>\<open>ValueError\<close>. (Digit-group underscores, non-ASCII digits and the
  spellings of infinity and not-a-number are not modelled.)
\<close>

definition signed :: "(string \<Rightarrow> 'a option) \<Rightarrow> ('a \<Rightarrow> 'a) \<Rightarrow> string \<Rightarrow> 'a option" where
  "signed p neg s =
     (case s of
        [] \<Rightarrow> None
      | c # r \<Rightarrow> if c = CHR ''-'' then map_option neg (p r)
                else if c = CHR ''+'' then p r
                else p s)"

definition int_of_str :: "string \<Rightarrow> int option" where
  "int_of_str s = signed (\<lambda>t. map_option int (digits_val t)) uminus (str_strip s)"

definition mantissa :: "string \<Rightarrow> real option" where
  "mantissa s =
     (let ip = takeWhile (\<lambda>c. c \<noteq> CHR ''.'') s;
          fp = drop 1 (dropWhile (\<lambda>c. c \<noteq> CHR ''.'') s)
      in if ip = [] \<and> fp = [] then None
         else (case (if ip = [] then Some 0 else digits_val ip,
                     if fp = [] then Some 0 else digits_val fp) of
                 (Some i, Some f) \<Rightarrow> Some (real i + real f / 10 ^ length fp)
               | _ \<Rightarrow> None))"

definition is_exp_mark :: "char \<Rightarrow> bool" where
  "is_exp_mark c = (c = CHR ''e'' \<or> c = CHR ''E'')"

definition unsigned_float :: "string \<Rightarrow> real option" where
  "unsigned_float s =
     (let m = takeWhile (\<lambda>c. \<not> is_exp_mark c) s;
          e = dropWhile (\<lambda>c. \<not> is_exp_mark c) s
      in case mantissa m of
           None \<Rightarrow> None
         | Some v \<Rightarrow>
             (case e of
                [] \<Rightarrow> Some v
              | _ # ds \<Rightarrow>
                  (case signed (\<lambda>t. map_option int (digits_val t)) uminus ds of
                     None \<Rightarrow> None
                   | Some k \<Rightarrow> Some (if 0 \<le> k then v * 10 ^ nat k else v / 10 ^ nat (- k)))))"

definition float_of_str :: "string \<Rightarrow> real option" where
  "float_of_str s = signed unsigned_float uminus (str_strip s)"

text \<open>
  \<^verbatim>\<open>int(v)\<close> and \<^verbatim>\<open>float(v)\<close>; \<open>None\<close> stands for the \<^verbatim>\<open>TypeError\<close> or \<^verbatim>\<open>ValueError\<close>
  that the callers catch. \<^verbatim>\<open>int\<close> of a float truncates towards zero.
\<close>

definition py_int :: "pyval \<Rightarrow> int option" where
  "py_int v =
     (case v of
        VNone \<Rightarrow> None
      | VInt n \<Rightarrow> Some n
      | VFloat r \<Rightarrow> Some (if 0 \<le> r then \<lfloor>r\<rfloor> else \<lceil>r\<rceil>)
      | VStr s \<Rightarrow> int_of_str s
      | VList _ \<Rightarrow> None)"

definition py_float :: "pyval \<Rightarrow> real option" where
  "py_float v =
     (case v of
        VNone \<Rightarrow> None
      | VInt n \<Rightarrow> Some (real_of_int n)
      | VFloat r \<Rightarrow> Some r
      | VStr s \<Rightarrow> float_of_str s
      | VList _ \<Rightarrow> None)"

section \<open>Settings (config/settings.py)\<close>

definition MATE_SCORE_EQUIVALENT_CP :: real where
  "MATE_SCORE_EQUIVALENT_CP = 30000"

definition CPL_INDIVIDUAL_EVAL_CAP_CP :: real where
  "CPL_INDIVIDUAL_EVAL_CAP_CP = 1000"

definition ACPL_MOVE_CPL_CAP_CP :: real where
  "ACPL_MOVE_CPL_CAP_CP = 1000"

definition MOVE_CLASSIFICATION_THRESHOLDS :: "(string \<times> real) list" where
  "MOVE_CLASSIFICATION_THRESHOLDS =
     [(''Best'', 5), (''Good'', 40), (''OK'', 70), (''Dubious'', 90),
      (''Inaccuracy'', 180), (''Mistake'', 300)]"

section \<open>Score normalisation (context_builders.get_score_from_line)\<close>

text \<open>\<^verbatim>\<open>chess.Color\<close> is \<^verbatim>\<open>bool\<close>: \<^verbatim>\<open>chess.WHITE = True\<close>, \<^verbatim>\<open>chess.BLACK = False\<close>.\<close>

type_synonym color = bool

definition WHITE :: color where "WHITE = True"
definition BLACK :: color where "BLACK = False"

text \<open>
  The value of the three locals \<^verbatim>\<open>score_wpov\<close>, \<^verbatim>\<open>is_mate\<close>, \<^verbatim>\<open>mate_moves_wpov\<close> after
  the \<^verbatim>\<open>if mate_val is not None ... elif cp_val is not None\<close> block. When \<^verbatim>\<open>int(mate_val)\<close>
  raises, the handler resets \<^verbatim>\<open>mate_moves_wpov\<close> and \<^verbatim>\<open>is_mate\<close>, and \<^verbatim>\<open>score_wpov\<close> is still
  \<^verbatim>\<open>None\<close>. For a mate distance of 0 only \<^verbatim>\<open>is_mate\<close> and \<^verbatim>\<open>score_wpov\<close> are reassigned:
  \<^verbatim>\<open>mate_moves_wpov\<close> keeps the value 0.
\<close>

definition score_locals :: "line \<Rightarrow> real option \<times> bool \<times> int option" where
  "score_locals l =
     (let mate_val = dict_get l ''Mate''; cp_val = dict_get l ''Centipawn''
      in if mate_val \<noteq> VNone then
           (case py_int mate_val of
              None \<Rightarrow> (None, False, None)
            | Some m \<Rightarrow>
                if m = 0 then (Some 0, False, Some m)
                else if m > 0 then (Some (MATE_SCORE_EQUIVALENT_CP - real_of_int \<bar>m\<bar>), True, Some m)
                else (Some (- MATE_SCORE_EQUIVALENT_CP + real_of_int \<bar>m\<bar>), True, Some m))
         else if cp_val \<noteq> VNone then
           (case py_float cp_val of
              None \<Rightarrow> (None, False, None)
            | Some f \<Rightarrow> (Some f, False, None))
         else (None, False, None))"

definition get_score_from_line :: "line option \<Rightarrow> color \<Rightarrow> real option \<times> bool \<times> int option" where
  "get_score_from_line line perspective =
     (case line of
        None \<Rightarrow> (None, False, None)
      | Some l \<Rightarrow>
          if l = [] then (None, False, None)
          else
            (case score_locals l of
               (None, _, _) \<Rightarrow> (None, False, None)
             | (Some score_wpov, is_mate, mate_moves_wpov) \<Rightarrow>
                 if perspective = WHITE then (Some score_wpov, is_mate, mate_moves_wpov)
                 else (Some (- score_wpov), is_mate,
                       if is_mate \<and> mate_moves_wpov \<noteq> None
                       then map_option uminus mate_moves_wpov else None)))"

section \<open>Data contracts (types.py)\<close>

record BrilliantMoveCriteria =
  max_cpl :: real
  eval_drop_leniency_cp :: real
  max_eval_before_move_cp :: real
  min_sacrifice_net_material_pawns :: real

record GreatMoveCriteria =
  min_uniqueness_gain_cp :: real

record ClassificationResult =
  classification_text :: string
  cpl :: real
  raw_cpl :: real
  is_brilliant :: bool
  is_great :: bool
  is_engine_top_choice :: bool
  is_engine_top_n_choice :: bool

text \<open>
  A \<^verbatim>\<open>chess.Board\<close> is read by the classifier only through \<^verbatim>\<open>piece_map()\<close>, the
  dictionary from occupied squares to pieces.
\<close>

datatype piece_type = PAWN | KNIGHT | BISHOP | ROOK | QUEEN | KING

record Piece =
  piece_type :: piece_type
  piece_color :: color

type_synonym Board = "(nat \<times> Piece) list"

record MoveAnalysisContext =
  eval_best_move :: "real option"
  is_mate_best_move :: bool
  eval_second_best_move :: "real option"
  is_mate_second_best_move :: bool
  eval_player_move :: "real option"
  is_mate_player_move :: bool
  eval_before_move :: "real option"
  is_mate_before_move :: bool
  engine_top_lines :: "line list"
  player_move_uci :: string
  board_before_move :: Board
  board_after_move :: Board
  player_color :: color
  engine_multipv :: int
  brilliant_criteria :: BrilliantMoveCriteria
  great_criteria :: GreatMoveCriteria

definition BRILLIANT_CRITERIA :: BrilliantMoveCriteria where
  "BRILLIANT_CRITERIA =
     \<lparr>max_cpl = 20, eval_drop_leniency_cp = 15, max_eval_before_move_cp = 350,
      min_sacrifice_net_material_pawns = 5 / 2\<rparr>"

definition GREAT_CRITERIA :: GreatMoveCriteria where
  "GREAT_CRITERIA = \<lparr>min_uniqueness_gain_cp = 120\<rparr>"

text \<open>The exceptions of the program that the modelled functions can raise.\<close>

datatype error =
    TypeError
  | CacheError
  | CacheConnectionError
  | CacheReadError
  | CacheWriteError
  | StockfishError
  | StockfishAnalysisError string

section \<open>Material (utils/chess_utils.py)\<close>

definition PIECE_VALUES :: "(piece_type \<times> real) list" where
  "PIECE_VALUES =
     [(PAWN, 1), (KNIGHT, 3), (BISHOP, 16 / 5), (ROOK, 5), (QUEEN, 9), (KING, 0)]"

definition piece_value :: "piece_type \<Rightarrow> real" where
  "piece_value t = (case map_of PIECE_VALUES t of None \<Rightarrow> 0 | Some v \<Rightarrow> v)"

text \<open>Rounding to the nearest integer, ties to the even one, as Python rounds.\<close>

definition round_half_even :: "real \<Rightarrow> int" where
  "round_half_even x =
     (let f = \<lfloor>x\<rfloor>; d = x - real_of_int f
      in if d < 1 / 2 then f
         else if 1 / 2 < d then f + 1
         else if even f then f else f + 1)"

text \<open>\<^verbatim>\<open>round(x, 2)\<close>.\<close>

definition py_round2 :: "real \<Rightarrow> real" where
  "py_round2 x = real_of_int (round_half_even (x * 100)) / 100"

definition material_step :: "color \<Rightarrow> real \<Rightarrow> Piece \<Rightarrow> real" where
  "material_step perspective_color diff piece =
     (let v = piece_value (piece_type piece)
      in if piece_color piece = perspective_color then diff + v else diff - v)"

definition get_material_diff :: "Board \<Rightarrow> color \<Rightarrow> real" where
  "get_material_diff board perspective_color =
     py_round2 (foldl (material_step perspective_color) 0 (map snd board))"

section \<open>Move classification (analysis/move_classifier.py)\<close>

definition cap_score :: "real option \<Rightarrow> bool \<Rightarrow> real" where
  "cap_score score_cp is_mate =
     (case score_cp of
        None \<Rightarrow> 0
      | Some s \<Rightarrow>
          if is_mate then s
          else min CPL_INDIVIDUAL_EVAL_CAP_CP (max (- CPL_INDIVIDUAL_EVAL_CAP_CP) s))"

definition is_significant_piece_sacrifice :: "MoveAnalysisContext \<Rightarrow> bool" where
  "is_significant_piece_sacrifice ctx =
     (let diff_before = get_material_diff (board_before_move ctx) (player_color ctx);
          diff_after = get_material_diff (board_after_move ctx) (player_color ctx);
          net_material_loss = diff_before - diff_after
      in min_sacrifice_net_material_pawns (brilliant_criteria ctx) \<le> net_material_loss)"

text \<open>The label \<^verbatim>\<open>"Brilliant "\<close> followed by the sparkles sign U+2728 in UTF-8.\<close>

definition brilliant_text :: string where
  "brilliant_text = ''Brilliant '' @ [char_of (226::nat), char_of (156::nat), char_of (168::nat)]"

definition check_for_brilliant :: "MoveAnalysisContext \<Rightarrow> real \<Rightarrow> ClassificationResult option" where
  "check_for_brilliant ctx raw =
     (case (eval_player_move ctx, eval_before_move ctx) of
        (Some eval_player, Some eval_before) \<Rightarrow>
          if max_cpl (brilliant_criteria ctx) < raw then None
          else if is_mate_before_move ctx \<and> 0 < eval_before then None
          else if \<not> is_mate_before_move ctx
                  \<and> max_eval_before_move_cp (brilliant_criteria ctx) < eval_before then None
          else if eval_drop_leniency_cp (brilliant_criteria ctx) < eval_before - eval_player then None
          else if \<not> is_significant_piece_sacrifice ctx then None
          else Some \<lparr>classification_text = brilliant_text, cpl = 0, raw_cpl = raw,
                      is_brilliant = True, is_great = False,
                      is_engine_top_choice = False, is_engine_top_n_choice = False\<rparr>
      | _ \<Rightarrow> None)"

definition check_for_great :: "MoveAnalysisContext \<Rightarrow> bool \<Rightarrow> ClassificationResult option" where
  "check_for_great ctx is_top_choice =
     (if \<not> is_top_choice then None
      else if engine_multipv ctx < 2 then None
      else
        (case (eval_best_move ctx, eval_second_best_move ctx) of
           (Some best, Some second) \<Rightarrow>
             if is_mate_best_move ctx \<or> is_mate_second_best_move ctx then None
             else if best - second < min_uniqueness_gain_cp (great_criteria ctx) then None
             else Some \<lparr>classification_text = ''Great Move !'', cpl = 0, raw_cpl = 0,
                         is_brilliant = False, is_great = True,
                         is_engine_top_choice = True, is_engine_top_n_choice = True\<rparr>
         | _ \<Rightarrow> None))"

fun first_tier :: "(string \<times> real) list \<Rightarrow> real \<Rightarrow> string" where
  "first_tier [] c = ''Blunder''"
| "first_tier ((name, threshold) # rest) c = (if c \<le> threshold then name else first_tier rest c)"

definition get_standard_classification :: "real \<Rightarrow> string" where
  "get_standard_classification c = first_tier MOVE_CLASSIFICATION_THRESHOLDS c"

text \<open>Decimal digits of a natural number, and the format \<^verbatim>\<open>f"{x:.0f}"\<close>.\<close>

fun str_of_nat :: "nat \<Rightarrow> string" where
  "str_of_nat n =
     (if n < 10 then [char_of (48 + n)]
      else str_of_nat (n div 10) @ [char_of (48 + n mod 10)])"

declare str_of_nat.simps [simp del]

definition fmt_0f :: "real \<Rightarrow> string" where
  "fmt_0f x = (if x < 0 then ''-'' else []) @ str_of_nat (nat \<bar>round_half_even x\<bar>)"

definition classification_text_of :: "string \<Rightarrow> real \<Rightarrow> string" where
  "classification_text_of classification_name cpl_for_metrics =
     (if classification_name = ''Best'' then classification_name
      else if classification_name = ''Blunder''
           then ''Blunder !!! (CPL: '' @ fmt_0f cpl_for_metrics @ '')''
      else classification_name @ '' (CPL: '' @ fmt_0f cpl_for_metrics @ '')'')"

text \<open>
  \<^verbatim>\<open>is_top_choice\<close> and \<^verbatim>\<open>is_top_n_choice\<close>: the played move compared with the
  \<^verbatim>\<open>'Move'\<close> entry of the first line, and of any line.
\<close>

definition top_choice :: "MoveAnalysisContext \<Rightarrow> bool" where
  "top_choice ctx =
     (case engine_top_lines ctx of
        [] \<Rightarrow> False
      | l # _ \<Rightarrow> VStr (player_move_uci ctx) = dict_get l ''Move'')"

definition top_n_choice :: "MoveAnalysisContext \<Rightarrow> bool" where
  "top_n_choice ctx =
     (top_choice ctx
      \<or> list_ex (\<lambda>l. VStr (player_move_uci ctx) = dict_get l ''Move'') (engine_top_lines ctx))"

text \<open>
  The Brilliant branch rebuilds the result by
  \<^verbatim>\<open>brilliant_result.__class__(**brilliant_result.__dict__, is_engine_top_choice=..., is_engine_top_n_choice=...)\<close>.
  The \<^verbatim>\<open>__dict__\<close> of a dataclass instance holds every field, also those left at their
  default. Python raises \<^verbatim>\<open>TypeError\<close> for a call in which a keyword is given both by the
  unpacked dictionary and explicitly (multiple values for the keyword argument), and
  for a keyword that names no field (unexpected keyword argument).
\<close>

definition result_dict_keys :: "ClassificationResult \<Rightarrow> string list" where
  "result_dict_keys r =
     [''classification_text'', ''cpl'', ''raw_cpl'', ''is_brilliant'', ''is_great'',
      ''is_engine_top_choice'', ''is_engine_top_n_choice'']"

definition rebuild_with_keywords ::
  "ClassificationResult \<Rightarrow> (string \<times> bool) list \<Rightarrow> error + ClassificationResult" where
  "rebuild_with_keywords r keywords =
     (if list_ex (\<lambda>kw. fst kw \<in> set (result_dict_keys r)) keywords then Inl TypeError
      else if keywords \<noteq> [] then Inl TypeError
      else Inr r)"

definition classify_move :: "MoveAnalysisContext \<Rightarrow> error + ClassificationResult" where
  "classify_move ctx =
     (case (eval_best_move ctx, eval_player_move ctx) of
        (Some best, Some player) \<Rightarrow>
          (let capped_eval_best = cap_score (Some best) (is_mate_best_move ctx);
               capped_eval_player = cap_score (Some player) (is_mate_player_move ctx);
               raw = capped_eval_best - capped_eval_player;
               cpl_for_metrics = min ACPL_MOVE_CPL_CAP_CP (max 0 raw);
               is_top_choice = top_choice ctx;
               is_top_n_choice = top_n_choice ctx
           in case check_for_brilliant ctx raw of
                Some brilliant_result \<Rightarrow>
                  rebuild_with_keywords brilliant_result
                    [(''is_engine_top_choice'', is_top_choice),
                     (''is_engine_top_n_choice'', is_top_n_choice)]
              | None \<Rightarrow>
                  (case check_for_great ctx is_top_choice of
                     Some great_result \<Rightarrow> Inr great_result
                   | None \<Rightarrow>
                       Inr \<lparr>classification_text =
                              classification_text_of
                                (get_standard_classification cpl_for_metrics) cpl_for_metrics,
                            cpl = cpl_for_metrics, raw_cpl = raw,
                            is_brilliant = False, is_great = False,
                            is_engine_top_choice = is_top_choice,
                            is_engine_top_n_choice = is_top_n_choice\<rparr>))
      | _ \<Rightarrow> Inr \<lparr>classification_text = ''Unavailable (eval error)'', cpl = 0, raw_cpl = 0,
                   is_brilliant = False, is_great = False,
                   is_engine_top_choice = False, is_engine_top_n_choice = False\<rparr>)"

section \<open>Games and the board capability (python-chess)\<close>

text \<open>
  The library python-chess is outside the repository. Of a move the program uses its
  truth value: \<^verbatim>\<open>chess.Move.__bool__\<close> is
  \<^verbatim>\<open>bool(self.from_square or self.to_square or self.promotion or self.drop)\<close>, so the null
  move (\<^verbatim>\<open>0000\<close>, written \<^verbatim>\<open>--\<close> or \<^verbatim>\<open>Z0\<close> in PGN) is the one move that is false.
  Squares are numbered from 0 (a1), piece types from 1.
\<close>

record Move =
  from_square :: nat
  to_square :: nat
  promotion :: "nat option"
  drop_piece :: "nat option"

definition opt_truthy :: "nat option \<Rightarrow> bool" where
  "opt_truthy v = (case v of None \<Rightarrow> False | Some n \<Rightarrow> n \<noteq> 0)"

definition move_bool :: "Move \<Rightarrow> bool" where
  "move_bool m =
     (if from_square m \<noteq> 0 then True
      else if to_square m \<noteq> 0 then True
      else if opt_truthy (promotion m) then True
      else opt_truthy (drop_piece m))"

definition null_move :: Move where
  "null_move = \<lparr>from_square = 0, to_square = 0, promotion = None, drop_piece = None\<rparr>"

text \<open>
  A game is read through its headers, its starting board \<^verbatim>\<open>game.board()\<close> and the moves
  of its main line \<^verbatim>\<open>game.mainline()\<close> (a node of the main line always has a move). The
  board type is a parameter, with \<^verbatim>\<open>board.fen()\<close> and \<^verbatim>\<open>board.push(move)\<close> passed as
  functions; \<^verbatim>\<open>push\<close> changes the board in place, here it returns the new board.
\<close>

type_synonym headers = "(string \<times> string) list"

record 'b Game =
  game_headers :: headers
  game_board :: 'b
  game_mainline :: "Move list"

definition headers_get :: "headers \<Rightarrow> string \<Rightarrow> string \<Rightarrow> string" where
  "headers_get h k fallback = (case map_of h k of None \<Rightarrow> fallback | Some v \<Rightarrow> v)"

section \<open>Game summary (context_builders.build_game_summary)\<close>

text \<open>
  The methods \<^verbatim>\<open>str.lower()\<close> and \<^verbatim>\<open>str.strip()\<close> are built into Python and follow the
  Unicode character database, which is outside the repository: they are the
  parameters \<open>lower\<close> and \<open>strip\<close> of the model, and every property below holds for
  whatever they compute. A string is the list of the bytes of its UTF-8 encoding;
  comparing two strings and cutting a string at its first \<^verbatim>\<open>"("\<close> give the same on the
  bytes as on the code points.

  \<open>ascii_lower\<close> is what \<^verbatim>\<open>str.lower()\<close> computes on a string of ASCII characters, as
  \<open>str_strip\<close> is for \<^verbatim>\<open>str.strip()\<close>; the examples use them on such strings.
\<close>

definition ascii_lower_char :: "char \<Rightarrow> char" where
  "ascii_lower_char c =
     (if 65 \<le> (of_char c :: nat) \<and> (of_char c :: nat) \<le> 90
      then char_of ((of_char c :: nat) + 32) else c)"

definition ascii_lower :: "string \<Rightarrow> string" where
  "ascii_lower s = map ascii_lower_char s"

text \<open>
  \<^verbatim>\<open>collections.Counter\<close> of a list: a dictionary from each element to the number of its
  occurrences, in the order of first occurrence.
\<close>

fun counter_add :: "'a \<Rightarrow> ('a \<times> nat) list \<Rightarrow> ('a \<times> nat) list" where
  "counter_add x [] = [(x, 1)]"
| "counter_add x ((k, n) # rest) =
     (if k = x then (k, n + 1) # rest else (k, n) # counter_add x rest)"

definition Counter :: "'a list \<Rightarrow> ('a \<times> nat) list" where
  "Counter xs = foldl (\<lambda>acc x. counter_add x acc) [] xs"

record GameSummary =
  game_id :: string
  analyzed_player_name :: string
  player_color_str :: string
  player_cpls :: "real list"
  move_classification_counts :: "(string \<times> nat) list"
  engine_top1_match_count :: nat
  engine_topN_match_count :: nat
  pgn_headers :: headers

text \<open>\<^verbatim>\<open>r.classification_text.split("(")[0].strip()\<close>.\<close>

definition simplified_label :: "(string \<Rightarrow> string) \<Rightarrow> ClassificationResult \<Rightarrow> string" where
  "simplified_label strip r =
     strip (takeWhile (\<lambda>c. c \<noteq> CHR ''('') (classification_text r))"

definition build_game_summary ::
  "(string \<Rightarrow> string) \<Rightarrow> (string \<Rightarrow> string) \<Rightarrow> 'b Game \<Rightarrow> string \<Rightarrow> string option
     \<Rightarrow> ClassificationResult list \<Rightarrow> GameSummary option" where
  "build_game_summary lower strip game gid target_player move_results =
     (case target_player of
        None \<Rightarrow> None
      | Some target \<Rightarrow>
          if target = [] then None
          else
            (let white_player = headers_get (game_headers game) ''White'' [];
                 black_player = headers_get (game_headers game) ''Black'' [];
                 is_white_targeted = (lower target = lower white_player);
                 is_black_targeted = (lower target = lower black_player)
             in if \<not> (is_white_targeted \<or> is_black_targeted) then None
                else
                  (let player_results =
                         map snd
                           (filter (\<lambda>(i, r). (is_white_targeted \<and> i mod 2 = 0)
                                             \<or> (is_black_targeted \<and> i mod 2 \<noteq> 0))
                              (enumerate 0 move_results))
                   in if player_results = [] then None
                      else
                        Some \<lparr>game_id = gid,
                              analyzed_player_name =
                                (if is_white_targeted then white_player else black_player),
                              player_color_str =
                                (if is_white_targeted then ''White'' else ''Black''),
                              player_cpls = map cpl player_results,
                              move_classification_counts =
                                Counter (map (simplified_label strip) player_results),
                              engine_top1_match_count =
                                length (filter is_engine_top_choice player_results),
                              engine_topN_match_count =
                                length (filter is_engine_top_n_choice player_results),
                              pgn_headers = game_headers game\<rparr>)))"

section \<open>Position planning (analysis_provider._get_required_fens)\<close>

text \<open>
  A Python set of strings is a list without duplicates; \<^verbatim>\<open>add\<close> appends an element
  that is not yet there. (The iteration order of a Python set is not specified; the
  model iterates in the order of insertion.)
\<close>

definition set_add :: "'a \<Rightarrow> 'a list \<Rightarrow> 'a list" where
  "set_add x xs = (if x \<in> set xs then xs else xs @ [x])"

fun required_fens_loop ::
  "('b \<Rightarrow> string) \<Rightarrow> ('b \<Rightarrow> Move \<Rightarrow> 'b) \<Rightarrow> 'b \<Rightarrow> Move list \<Rightarrow> string list \<Rightarrow> string list" where
  "required_fens_loop board_fen board_push board [] required_fens = required_fens"
| "required_fens_loop board_fen board_push board (move # nodes) required_fens =
     (if \<not> move_bool move
      then required_fens_loop board_fen board_push board nodes required_fens
      else
        (let required_fens1 = set_add (board_fen board) required_fens;
             board1 = board_push board move;
             required_fens2 = set_add (board_fen board1) required_fens1
         in required_fens_loop board_fen board_push board1 nodes required_fens2))"

definition get_required_fens ::
  "('b \<Rightarrow> string) \<Rightarrow> ('b \<Rightarrow> Move \<Rightarrow> 'b) \<Rightarrow> 'b Game \<Rightarrow> string list" where
  "get_required_fens board_fen board_push game =
     required_fens_loop board_fen board_push (game_board game) (game_mainline game)
       (set_add (board_fen (game_board game)) [])"

text \<open>
  \<^verbatim>\<open>PGNHandler.collect_move_data_and_fens\<close>, the pass that the game processor uses to
  look the evaluations up: the positions before and after each move of the main line.
  It skips a node whose move \<^verbatim>\<open>is None\<close>, which no node of the main line is.
\<close>

fun collect_move_fens ::
  "('b \<Rightarrow> string) \<Rightarrow> ('b \<Rightarrow> Move \<Rightarrow> 'b) \<Rightarrow> 'b \<Rightarrow> Move list \<Rightarrow> (string \<times> string) list" where
  "collect_move_fens board_fen board_push board [] = []"
| "collect_move_fens board_fen board_push board (move # nodes) =
     (board_fen board, board_fen (board_push board move))
       # collect_move_fens board_fen board_push (board_push board move) nodes"

section \<open>Cache (cache/db_manager.py)\<close>

text \<open>
  Python dictionaries with assignment \<^verbatim>\<open>d[k] = v\<close> and \<^verbatim>\<open>d.update(other)\<close>: a key keeps
  its place when its value is replaced, and a new key goes to the end.
\<close>

fun dict_set :: "('k \<times> 'v) list \<Rightarrow> 'k \<Rightarrow> 'v \<Rightarrow> ('k \<times> 'v) list" where
  "dict_set [] k v = [(k, v)]"
| "dict_set ((k', v') # rest) k v =
     (if k' = k then (k, v) # rest else (k', v') # dict_set rest k v)"

definition dict_update :: "('k \<times> 'v) list \<Rightarrow> ('k \<times> 'v) list \<Rightarrow> ('k \<times> 'v) list" where
  "dict_update d other = foldl (\<lambda>acc kv. dict_set acc (fst kv) (snd kv)) d other"

record CacheKey =
  fen :: string
  analysis_depth :: int
  multipv_count :: int
  stockfish_path_canon :: string
  stockfish_version :: string

record CacheEntry =
  key :: CacheKey
  analysis_result :: "line list"

text \<open>
  The state of a \<^verbatim>\<open>DBManager\<close>: the closed flag, whether the connection is there, and
  the table, whose primary key is the cache key. The column \<^verbatim>\<open>analysis_result_json\<close> is
  the evaluation list that \<^verbatim>\<open>json.loads\<close> decodes it to, or \<open>None\<close> for a text on which
  \<^verbatim>\<open>json.loads\<close> raises \<^verbatim>\<open>JSONDecodeError\<close>; the table is written by
  \<^verbatim>\<open>store_analyses_batch\<close> only, which stores the text of an evaluation list. Whether
  SQLite fails during a read or a write is decided by the environment: the two flags
  \<open>db_read_fails\<close> and \<open>db_write_fails\<close> stand for it.
\<close>

record DBManager =
  db_is_closed :: bool
  db_conn_active :: bool
  db_table :: "(CacheKey \<times> line list option) list"
  db_read_fails :: bool
  db_write_fails :: bool

definition ensure_connected :: "DBManager \<Rightarrow> error option" where
  "ensure_connected db =
     (if db_is_closed db then Some CacheError
      else if \<not> db_conn_active db then Some CacheConnectionError
      else None)"

definition row_matches :: "string list \<Rightarrow> int \<Rightarrow> int \<Rightarrow> string \<Rightarrow> string \<Rightarrow> CacheKey \<Rightarrow> bool" where
  "row_matches fens depth multipv path version k =
     (analysis_depth k = depth \<and> multipv_count k = multipv
      \<and> stockfish_path_canon k = path \<and> stockfish_version k = version
      \<and> fen k \<in> set fens)"

fun rows_to_results ::
  "(CacheKey \<times> line list option) list \<Rightarrow> (string \<times> line list) list \<Rightarrow> (string \<times> line list) list" where
  "rows_to_results [] results = results"
| "rows_to_results ((k, analysis_json) # rows) results =
     (case analysis_json of
        None \<Rightarrow> rows_to_results rows results
      | Some decoded \<Rightarrow> rows_to_results rows (dict_set results (fen k) decoded))"

definition get_cached_analyses_batch ::
  "DBManager \<Rightarrow> string list \<Rightarrow> int \<Rightarrow> int \<Rightarrow> string \<Rightarrow> string
     \<Rightarrow> error + (string \<times> line list) list" where
  "get_cached_analyses_batch db fens depth multipv path version =
     (if fens = [] then Inr []
      else
        (case ensure_connected db of
           Some e \<Rightarrow> Inl e
         | None \<Rightarrow>
             if db_read_fails db then Inl CacheReadError
             else Inr (rows_to_results
                         (filter (\<lambda>row. row_matches fens depth multipv path version (fst row))
                            (db_table db)) [])))"

definition store_analyses_batch :: "DBManager \<Rightarrow> CacheEntry list \<Rightarrow> error + DBManager" where
  "store_analyses_batch db entries =
     (if entries = [] then Inr db
      else
        (case ensure_connected db of
           Some e \<Rightarrow> Inl e
         | None \<Rightarrow>
             if db_write_fails db then Inl CacheWriteError
             else Inr (db\<lparr>db_table :=
                          foldl (\<lambda>table e. dict_set table (key e) (Some (analysis_result e)))
                            (db_table db) entries\<rparr>)))"

section \<open>Engine (engine/stockfish_controller.py)\<close>

text \<open>
  What the engine answers for a position and a number of lines: the position fails
  \<^verbatim>\<open>is_fen_valid\<close>, or \<^verbatim>\<open>get_top_moves\<close> returns a list of lines, or one of the calls
  raises \<^verbatim>\<open>StockfishException\<close>. \<open>sf_ready\<close> is whether \<^verbatim>\<open>_ensure_engine_ready\<close> succeeds.
  The engine process, the progress callback and the log are not modelled; the
  provider passes no shutdown event.
\<close>

datatype sf_answer = SF_invalid | SF_top_moves "line list" | SF_exception

record StockfishController =
  sf_ready :: bool
  sf_multipv_count :: int
  sf_answer :: "string \<Rightarrow> int \<Rightarrow> sf_answer"

fun analyze_fens_loop ::
  "StockfishController \<Rightarrow> string list \<Rightarrow> (string \<times> line list option) list
     \<Rightarrow> error + (string \<times> line list option) list" where
  "analyze_fens_loop sc [] results = Inr results"
| "analyze_fens_loop sc (f # fen_list) results =
     (case sf_answer sc f (max 1 (sf_multipv_count sc)) of
        SF_exception \<Rightarrow> Inl (StockfishAnalysisError f)
      | SF_invalid \<Rightarrow> analyze_fens_loop sc fen_list (dict_set results f None)
      | SF_top_moves top_moves \<Rightarrow>
          analyze_fens_loop sc fen_list (dict_set results f (Some top_moves)))"

definition analyze_fens_batch ::
  "StockfishController \<Rightarrow> string list \<Rightarrow> error + (string \<times> line list option) list" where
  "analyze_fens_batch sc fen_list =
     (if \<not> sf_ready sc then Inl StockfishError
      else if fen_list = [] then Inr []
      else analyze_fens_loop sc fen_list [])"

text \<open>
  What \<^verbatim>\<open>analyze_fens_batch\<close> records for a position that the engine answers without an
  exception: the list of lines, or \<^verbatim>\<open>None\<close> for a position that fails \<^verbatim>\<open>is_fen_valid\<close>.
\<close>

definition recorded_result :: "sf_answer \<Rightarrow> line list option" where
  "recorded_result a = (case a of SF_top_moves top_moves \<Rightarrow> Some top_moves | _ \<Rightarrow> None)"

section \<open>Analysis provider (analysis/analysis_provider.py)\<close>

record AnalysisProvider =
  provider_analysis_depth :: int
  provider_multipv_count :: int
  provider_stockfish_path :: string
  provider_stockfish_version :: string

definition cache_entry_for :: "AnalysisProvider \<Rightarrow> string \<Rightarrow> line list \<Rightarrow> CacheEntry" where
  "cache_entry_for provider f result =
     \<lparr>key = \<lparr>fen = f, analysis_depth = provider_analysis_depth provider,
              multipv_count = provider_multipv_count provider,
              stockfish_path_canon = provider_stockfish_path provider,
              stockfish_version = provider_stockfish_version provider\<rparr>,
      analysis_result = result\<rparr>"

fun entries_to_cache ::
  "AnalysisProvider \<Rightarrow> (string \<times> line list option) list \<Rightarrow> CacheEntry list" where
  "entries_to_cache provider [] = []"
| "entries_to_cache provider ((f, result) # items) =
     (case result of
        None \<Rightarrow> entries_to_cache provider items
      | Some r \<Rightarrow> cache_entry_for provider f r # entries_to_cache provider items)"

text \<open>
  Steps 2 to 5 of \<^verbatim>\<open>get_analyses_for_game\<close>, for the required positions of Step 1 in
  the order in which the set is iterated. The result is the triple
  \<^verbatim>\<open>(all_analyses, cache_hits, engine_runs)\<close> together with the state of the cache
  afterwards; an exception of the cache or of the engine leaves the function, and the
  cache is then as before. A value of \<^verbatim>\<open>all_analyses\<close> is an evaluation list or
  \<^verbatim>\<open>None\<close>: the cached results are copied, and \<^verbatim>\<open>update\<close> adds every entry of the
  engine's dictionary. The progress reporter only observes and is not modelled.
\<close>

definition resolve_required_fens ::
  "AnalysisProvider \<Rightarrow> DBManager \<Rightarrow> StockfishController \<Rightarrow> string list
     \<Rightarrow> error + ((string \<times> line list option) list \<times> nat \<times> nat) \<times> DBManager" where
  "resolve_required_fens provider db sc required_fens =
     (if required_fens = [] then Inr (([], 0, 0), db)
      else
        (case get_cached_analyses_batch db required_fens
                (provider_analysis_depth provider) (provider_multipv_count provider)
                (provider_stockfish_path provider) (provider_stockfish_version provider) of
           Inl e \<Rightarrow> Inl e
         | Inr cached_analyses \<Rightarrow>
             (let cache_hits = length cached_analyses;
                  all_analyses = map (\<lambda>kv. (fst kv, Some (snd kv))) cached_analyses;
                  fens_to_analyze =
                    filter (\<lambda>f. f \<notin> set (map fst cached_analyses)) required_fens;
                  engine_runs = length fens_to_analyze
              in if fens_to_analyze = [] then Inr ((all_analyses, cache_hits, engine_runs), db)
                 else
                   (case analyze_fens_batch sc fens_to_analyze of
                      Inl e \<Rightarrow> Inl e
                    | Inr newly_analyzed \<Rightarrow>
                        (let merged = dict_update all_analyses newly_analyzed;
                             entries = entries_to_cache provider newly_analyzed
                         in if entries = [] then Inr ((merged, cache_hits, engine_runs), db)
                            else
                              (case store_analyses_batch db entries of
                                 Inl e \<Rightarrow> Inl e
                               | Inr db' \<Rightarrow>
                                   Inr ((merged, cache_hits, engine_runs), db')))))))"

definition get_analyses_for_game ::
  "AnalysisProvider \<Rightarrow> DBManager \<Rightarrow> StockfishController
     \<Rightarrow> ('b \<Rightarrow> string) \<Rightarrow> ('b \<Rightarrow> Move \<Rightarrow> 'b) \<Rightarrow> 'b Game
     \<Rightarrow> error + ((string \<times> line list option) list \<times> nat \<times> nat) \<times> DBManager" where
  "get_analyses_for_game provider db sc board_fen board_push game =
     resolve_required_fens provider db sc (get_required_fens board_fen board_push game)"

section \<open>Example inputs\<close>

definition white_piece :: "piece_type \<Rightarrow> Piece" where
  "white_piece t = \<lparr>piece_type = t, piece_color = WHITE\<rparr>"

definition black_piece :: "piece_type \<Rightarrow> Piece" where
  "black_piece t = \<lparr>piece_type = t, piece_color = BLACK\<rparr>"

text \<open>
  White gives up a rook (e1 takes on e8 and is recaptured later): the engine's best
  line is worth 120 centipawns, the played move 115, the second line 100.
\<close>

definition rook_sacrifice_context :: MoveAnalysisContext where
  "rook_sacrifice_context =
     \<lparr>eval_best_move = Some 120, is_mate_best_move = False,
      eval_second_best_move = Some 100, is_mate_second_best_move = False,
      eval_player_move = Some 115, is_mate_player_move = False,
      eval_before_move = Some 120, is_mate_before_move = False,
      engine_top_lines = [[(''Move'', VStr ''e1e8''), (''Centipawn'', VInt 120)],
                          [(''Move'', VStr ''g1f3''), (''Centipawn'', VInt 100)]],
      player_move_uci = ''e1e8'',
      board_before_move = [(4, white_piece ROOK), (6, white_piece KING),
                           (60, black_piece ROOK), (62, black_piece KING)],
      board_after_move = [(6, white_piece KING), (60, black_piece ROOK),
                          (62, black_piece KING)],
      player_color = WHITE, engine_multipv = 2,
      brilliant_criteria = BRILLIANT_CRITERIA, great_criteria = GREAT_CRITERIA\<rparr>"

text \<open>Black gives up a knight with a move that is not among the engine's lines.\<close>

definition knight_sacrifice_context :: MoveAnalysisContext where
  "knight_sacrifice_context =
     \<lparr>eval_best_move = Some 50, is_mate_best_move = False,
      eval_second_best_move = None, is_mate_second_best_move = False,
      eval_player_move = Some 45, is_mate_player_move = False,
      eval_before_move = Some 50, is_mate_before_move = False,
      engine_top_lines = [[(''Move'', VStr ''d7d5''), (''Centipawn'', VInt (- 50))]],
      player_move_uci = ''f6e4'',
      board_before_move = [(6, white_piece KING), (12, white_piece PAWN),
                           (45, black_piece KNIGHT), (62, black_piece KING)],
      board_after_move = [(6, white_piece KING), (12, white_piece PAWN),
                          (62, black_piece KING)],
      player_color = BLACK, engine_multipv = 1,
      brilliant_criteria = BRILLIANT_CRITERIA, great_criteria = GREAT_CRITERIA\<rparr>"

text \<open>
  The only good move, and a rook sacrifice: the first line is worth 300 centipawns,
  the second 100, and the played move is the first line's move.
\<close>

definition brilliant_and_great_context :: MoveAnalysisContext where
  "brilliant_and_great_context =
     \<lparr>eval_best_move = Some 300, is_mate_best_move = False,
      eval_second_best_move = Some 100, is_mate_second_best_move = False,
      eval_player_move = Some 300, is_mate_player_move = False,
      eval_before_move = Some 300, is_mate_before_move = False,
      engine_top_lines = [[(''Move'', VStr ''a1a8''), (''Centipawn'', VInt 300)],
                          [(''Move'', VStr ''h2h3''), (''Centipawn'', VInt 100)]],
      player_move_uci = ''a1a8'',
      board_before_move = [(0, white_piece ROOK), (6, white_piece KING),
                           (56, black_piece QUEEN), (62, black_piece KING)],
      board_after_move = [(6, white_piece KING), (56, black_piece QUEEN),
                          (62, black_piece KING)],
      player_color = WHITE, engine_multipv = 2,
      brilliant_criteria = BRILLIANT_CRITERIA, great_criteria = GREAT_CRITERIA\<rparr>"

text \<open>Contexts in which no material changes hands.\<close>

definition quiet_board :: Board where
  "quiet_board = [(4, white_piece ROOK), (6, white_piece KING),
                  (60, black_piece ROOK), (62, black_piece KING)]"

definition mistake_context :: MoveAnalysisContext where
  "mistake_context =
     \<lparr>eval_best_move = Some 300, is_mate_best_move = False,
      eval_second_best_move = Some 280, is_mate_second_best_move = False,
      eval_player_move = Some 50, is_mate_player_move = False,
      eval_before_move = Some 300, is_mate_before_move = False,
      engine_top_lines = [[(''Move'', VStr ''e1e2''), (''Centipawn'', VInt 300)],
                          [(''Move'', VStr ''g1f1''), (''Centipawn'', VInt 280)]],
      player_move_uci = ''g1h1'',
      board_before_move = quiet_board, board_after_move = quiet_board,
      player_color = WHITE, engine_multipv = 2,
      brilliant_criteria = BRILLIANT_CRITERIA, great_criteria = GREAT_CRITERIA\<rparr>"

text \<open>
  Further contexts without a sacrifice: the played move loses 1800 centipawns; the
  played move is the second line and is evaluated 30 centipawns above the first; the
  played move misses a mate in one.
\<close>

definition blunder_context :: MoveAnalysisContext where
  "blunder_context =
     mistake_context\<lparr>eval_best_move := Some 900, eval_before_move := Some 900,
                     eval_player_move := Some (- 900)\<rparr>"

definition improved_context :: MoveAnalysisContext where
  "improved_context =
     mistake_context\<lparr>eval_best_move := Some 30, eval_before_move := Some 30,
                     eval_second_best_move := Some 20,
                     eval_player_move := Some 60, player_move_uci := ''g1f1''\<rparr>"

definition missed_mate_context :: MoveAnalysisContext where
  "missed_mate_context =
     mistake_context\<lparr>eval_best_move := Some 29999, is_mate_best_move := True,
                     eval_before_move := Some 29999, is_mate_before_move := True,
                     eval_player_move := Some 2000\<rparr>"

definition good_context :: MoveAnalysisContext where
  "good_context =
     mistake_context\<lparr>eval_best_move := Some 57, eval_before_move := Some 57,
                     eval_player_move := Some 20\<rparr>"

definition great_context :: MoveAnalysisContext where
  "great_context =
     \<lparr>eval_best_move = Some 400, is_mate_best_move = False,
      eval_second_best_move = Some 250, is_mate_second_best_move = False,
      eval_player_move = Some 400, is_mate_player_move = False,
      eval_before_move = Some 400, is_mate_before_move = False,
      engine_top_lines = [[(''Move'', VStr ''e1e2''), (''Centipawn'', VInt 400)],
                          [(''Move'', VStr ''g1f1''), (''Centipawn'', VInt 250)]],
      player_move_uci = ''e1e2'',
      board_before_move = quiet_board, board_after_move = quiet_board,
      player_color = WHITE, engine_multipv = 2,
      brilliant_criteria = BRILLIANT_CRITERIA, great_criteria = GREAT_CRITERIA\<rparr>"

definition great_without_player_eval_context :: MoveAnalysisContext where
  "great_without_player_eval_context =
     \<lparr>eval_best_move = Some 400, is_mate_best_move = False,
      eval_second_best_move = Some 250, is_mate_second_best_move = False,
      eval_player_move = None, is_mate_player_move = False,
      eval_before_move = Some 400, is_mate_before_move = False,
      engine_top_lines = [[(''Move'', VStr ''e1e2''), (''Centipawn'', VInt 400)],
                          [(''Move'', VStr ''g1f1''), (''Centipawn'', VInt 250)]],
      player_move_uci = ''e1e2'',
      board_before_move = quiet_board, board_after_move = quiet_board,
      player_color = WHITE, engine_multipv = 2,
      brilliant_criteria = BRILLIANT_CRITERIA, great_criteria = GREAT_CRITERIA\<rparr>"

text \<open>The game and the results of the repository's tests, with labels of every kind.\<close>

definition sample_game :: "unit Game" where
  "sample_game =
     \<lparr>game_headers = [(''Event'', ''Test Game''), (''White'', ''Player A''),
                      (''Black'', ''Player B'')],
      game_board = (), game_mainline = []\<rparr>"

text \<open>A game in which one player has both colours, the names differing in case only.\<close>

definition self_play_game :: "unit Game" where
  "self_play_game =
     \<lparr>game_headers = [(''White'', ''Player A''), (''Black'', ''player a'')],
      game_board = (), game_mainline = []\<rparr>"

definition plain_result :: "string \<Rightarrow> real \<Rightarrow> real \<Rightarrow> ClassificationResult" where
  "plain_result label c raw =
     \<lparr>classification_text = label, cpl = c, raw_cpl = raw,
      is_brilliant = False, is_great = False,
      is_engine_top_choice = False, is_engine_top_n_choice = False\<rparr>"

definition sample_results :: "ClassificationResult list" where
  "sample_results =
     [(plain_result ''Best'' 0 0)\<lparr>is_engine_top_choice := True, is_engine_top_n_choice := True\<rparr>,
      plain_result ''OK (CPL: 60)'' 60 60,
      (plain_result ''Good (CPL: 20)'' 20 18)\<lparr>is_engine_top_n_choice := True\<rparr>,
      plain_result ''Blunder !!! (CPL: 400)'' 400 400,
      plain_result ''Good (CPL: 30)'' 30 30,
      plain_result ''Best'' 0 0]"

text \<open>
  A stand-in for the board capability: a position is named by the moves that led to
  it. The provider and the planner treat position keys as opaque strings.
\<close>

definition string_board_fen :: "string \<Rightarrow> string" where
  "string_board_fen b = b"

definition square_name :: "nat \<Rightarrow> string" where
  "square_name sq = [char_of (97 + sq mod 8), char_of (49 + sq div 8)]"

definition string_board_push :: "string \<Rightarrow> Move \<Rightarrow> string" where
  "string_board_push b m = b @ '' '' @ square_name (from_square m) @ square_name (to_square m)"

definition plain_move :: "nat \<Rightarrow> nat \<Rightarrow> Move" where
  "plain_move a b = \<lparr>from_square = a, to_square = b, promotion = None, drop_piece = None\<rparr>"

definition example_provider :: AnalysisProvider where
  "example_provider =
     \<lparr>provider_analysis_depth = 18, provider_multipv_count = 2,
      provider_stockfish_path = ''/usr/bin/stockfish'', provider_stockfish_version = ''16''\<rparr>"

definition start_lines :: "line list" where
  "start_lines = [[(''Move'', VStr ''f2f3''), (''Centipawn'', VInt (- 80))]]"

definition mating_lines :: "line list" where
  "mating_lines = [[(''Move'', VStr ''d8h4''), (''Mate'', VInt 1)]]"

definition warm_cache :: DBManager where
  "warm_cache =
     \<lparr>db_is_closed = False, db_conn_active = True,
      db_table = [(key (cache_entry_for example_provider ''start'' []), Some start_lines)],
      db_read_fails = False, db_write_fails = False\<rparr>"

definition empty_cache :: DBManager where
  "empty_cache =
     \<lparr>db_is_closed = False, db_conn_active = True, db_table = [],
      db_read_fails = False, db_write_fails = False\<rparr>"

definition mate_engine :: StockfishController where
  "mate_engine =
     \<lparr>sf_ready = True, sf_multipv_count = 2,
      sf_answer = (\<lambda>f n. if f = ''start'' then SF_top_moves start_lines
                           else if f = ''start f2f3'' then SF_top_moves mating_lines
                           else SF_invalid)\<rparr>"

definition mating_game :: "string Game" where
  "mating_game =
     \<lparr>game_headers = [], game_board = ''start'',
      game_mainline = [plain_move 13 21, plain_move 59 31]\<rparr>"

definition stalled_game :: "string Game" where
  "stalled_game = \<lparr>game_headers = [], game_board = ''mated'', game_mainline = []\<rparr>"

definition mating_game_analyses :: "(string \<times> line list option) list" where
  "mating_game_analyses =
     [(''start'', Some start_lines), (''start f2f3'', Some mating_lines),
      (''start f2f3 d8h4'', None)]"

definition warm_cache_after :: DBManager where
  "warm_cache_after =
     warm_cache\<lparr>db_table :=
       db_table warm_cache
         @ [(key (cache_entry_for example_provider ''start f2f3'' []), Some mating_lines)]\<rparr>"

section \<open>Properties\<close>

lemmas classifier_defs =
  classify_move_def check_for_brilliant_def check_for_great_def cap_score_def
  is_significant_piece_sacrifice_def get_material_diff_def material_step_def
  piece_value_def PIECE_VALUES_def py_round2_def round_half_even_def
  BRILLIANT_CRITERIA_def GREAT_CRITERIA_def top_choice_def top_n_choice_def
  dict_get_def rebuild_with_keywords_def result_dict_keys_def
  CPL_INDIVIDUAL_EVAL_CAP_CP_def ACPL_MOVE_CPL_CAP_CP_def
  white_piece_def black_piece_def WHITE_def BLACK_def

subsection \<open>Score normalisation\<close>

lemma dict_get_nonempty: "dict_get l k = VInt m \<Longrightarrow> l \<noteq> []"
  by (auto simp: dict_get_def)

lemma score_locals_mate:
  "dict_get l ''Mate'' = VInt m \<Longrightarrow>
   score_locals l =
     (if m = 0 then (Some 0, False, Some m)
      else if 0 < m then (Some (MATE_SCORE_EQUIVALENT_CP - real_of_int \<bar>m\<bar>), True, Some m)
      else (Some (- MATE_SCORE_EQUIVALENT_CP + real_of_int \<bar>m\<bar>), True, Some m))"
  by (simp add: score_locals_def py_int_def)

lemma get_score_from_line_mate:
  "dict_get l ''Mate'' = VInt m \<Longrightarrow>
   get_score_from_line (Some l) p =
     (if m = 0 then (Some 0, False, if p = WHITE then Some 0 else None)
      else if 0 < m then
        (if p = WHITE then (Some (MATE_SCORE_EQUIVALENT_CP - real_of_int \<bar>m\<bar>), True, Some m)
         else (Some (- (MATE_SCORE_EQUIVALENT_CP - real_of_int \<bar>m\<bar>)), True, Some (- m)))
      else
        (if p = WHITE then (Some (- MATE_SCORE_EQUIVALENT_CP + real_of_int \<bar>m\<bar>), True, Some m)
         else (Some (- (- MATE_SCORE_EQUIVALENT_CP + real_of_int \<bar>m\<bar>)), True, Some (- m))))"
  using dict_get_nonempty[of l "''Mate''" m]
  by (simp add: get_score_from_line_def score_locals_mate)

text \<open>
  Away from a mate distance of 0, the result for Black is the result for White with
  the score and the mate distance negated.
\<close>

lemma score_negation_except_mate_zero:
  assumes "py_int (dict_get l ''Mate'') \<noteq> Some 0"
  shows "get_score_from_line (Some l) BLACK =
           (case get_score_from_line (Some l) WHITE of
              (s, is_mate, d) \<Rightarrow> (map_option uminus s, is_mate, map_option uminus d))"
  using assms
  by (auto simp: get_score_from_line_def score_locals_def WHITE_def BLACK_def Let_def
           split: option.splits)

text \<open>
  Claim C7. The score normaliser is an involution under side negation: for a line that
  yields a score, the score for one side is the negation of the score for the other
  side, and the mate distance is negated likewise. The code breaks this for the line
  \<^verbatim>\<open>{"Mate": 0}\<close>: it yields a score, White gets the mate distance 0 and Black gets
  \<^verbatim>\<open>None\<close>. (The repository's test of this line expects \<^verbatim>\<open>None\<close> for White too.)
\<close>

theorem mate_zero_distance_differs:
  "get_score_from_line (Some [(''Mate'', VInt 0)]) WHITE = (Some 0, False, Some 0)
   \<and> get_score_from_line (Some [(''Mate'', VInt 0)]) BLACK = (Some 0, False, None)"
  by (simp add: get_score_from_line_def score_locals_def dict_get_def py_int_def
                WHITE_def BLACK_def)

text \<open>
  Claim C8, amended. An absent line yields (absent, not mate, absent); a mate distance
  of 0 is non-mate with score 0; from White's point of view \<open>m > 0\<close> scores
  \<open>30000 - |m|\<close> and \<open>m < 0\<close> scores \<open>-30000 + |m|\<close> (negated for Black); for two mate
  distances of the same sign with \<open>|m| \<le> 30000\<close> the score of the smaller \<open>|m|\<close> has
  the strictly larger magnitude; and a mate score with \<open>0 < |m| < 29000\<close> is larger in
  magnitude than every capped centipawn score.
\<close>

theorem mate_score_mapping:
  "get_score_from_line None p = (None, False, None)
   \<and> (dict_get l ''Mate'' = VInt m \<longrightarrow>
        (m = 0 \<longrightarrow> fst (get_score_from_line (Some l) p) = Some 0
                    \<and> \<not> fst (snd (get_score_from_line (Some l) p)))
        \<and> (0 < m \<longrightarrow>
             get_score_from_line (Some l) WHITE
               = (Some (MATE_SCORE_EQUIVALENT_CP - real_of_int \<bar>m\<bar>), True, Some m)
             \<and> get_score_from_line (Some l) BLACK
               = (Some (- (MATE_SCORE_EQUIVALENT_CP - real_of_int \<bar>m\<bar>)), True, Some (- m)))
        \<and> (m < 0 \<longrightarrow>
             get_score_from_line (Some l) WHITE
               = (Some (- MATE_SCORE_EQUIVALENT_CP + real_of_int \<bar>m\<bar>), True, Some m)
             \<and> get_score_from_line (Some l) BLACK
               = (Some (- (- MATE_SCORE_EQUIVALENT_CP + real_of_int \<bar>m\<bar>)), True, Some (- m)))
        \<and> (dict_get l' ''Mate'' = VInt m' \<and> 0 < m * m'
              \<and> \<bar>m\<bar> < \<bar>m'\<bar> \<and> \<bar>m'\<bar> \<le> 30000
              \<and> fst (get_score_from_line (Some l) p) = Some s
              \<and> fst (get_score_from_line (Some l') p) = Some s'
              \<longrightarrow> \<bar>s'\<bar> < \<bar>s\<bar>)
        \<and> (m \<noteq> 0 \<and> \<bar>m\<bar> < 29000
              \<and> fst (get_score_from_line (Some l) p) = Some s
              \<longrightarrow> fst (snd (get_score_from_line (Some l) p))
                  \<and> \<bar>cap_score c False\<bar> < \<bar>s\<bar>))"
proof -
  have absent: "get_score_from_line None p = (None, False, None)"
    by (simp add: get_score_from_line_def)
  have cap: "\<bar>cap_score c False\<bar> \<le> 1000"
    by (cases c) (auto simp: cap_score_def CPL_INDIVIDUAL_EVAL_CAP_CP_def)
  have rest: ?thesis if mate: "dict_get l ''Mate'' = VInt m"
  proof -
    note here = get_score_from_line_mate[OF mate, of p]
    have zero: "m = 0 \<longrightarrow> fst (get_score_from_line (Some l) p) = Some 0
                  \<and> \<not> fst (snd (get_score_from_line (Some l) p))"
      by (simp add: here)
    have pos: "0 < m \<longrightarrow>
             get_score_from_line (Some l) WHITE
               = (Some (MATE_SCORE_EQUIVALENT_CP - real_of_int \<bar>m\<bar>), True, Some m)
             \<and> get_score_from_line (Some l) BLACK
               = (Some (- (MATE_SCORE_EQUIVALENT_CP - real_of_int \<bar>m\<bar>)), True, Some (- m))"
      by (simp add: get_score_from_line_mate[OF mate] WHITE_def BLACK_def)
    have neg: "m < 0 \<longrightarrow>
             get_score_from_line (Some l) WHITE
               = (Some (- MATE_SCORE_EQUIVALENT_CP + real_of_int \<bar>m\<bar>), True, Some m)
             \<and> get_score_from_line (Some l) BLACK
               = (Some (- (- MATE_SCORE_EQUIVALENT_CP + real_of_int \<bar>m\<bar>)), True, Some (- m))"
      by (simp add: get_score_from_line_mate[OF mate] WHITE_def BLACK_def)
    have order: "\<bar>s'\<bar> < \<bar>s\<bar>"
      if other: "dict_get l' ''Mate'' = VInt m'" and sign: "0 < m * m'"
        and less: "\<bar>m\<bar> < \<bar>m'\<bar>" and bound: "\<bar>m'\<bar> \<le> 30000"
        and s: "fst (get_score_from_line (Some l) p) = Some s"
        and s': "fst (get_score_from_line (Some l') p) = Some s'"
    proof -
      have nz: "m \<noteq> 0" "m' \<noteq> 0" using sign by auto
      have "\<bar>s\<bar> = 30000 - real_of_int \<bar>m\<bar>"
        using s less bound nz
        by (auto simp: here MATE_SCORE_EQUIVALENT_CP_def split: if_splits)
      moreover have "\<bar>s'\<bar> = 30000 - real_of_int \<bar>m'\<bar>"
        using s' bound nz
        by (auto simp: get_score_from_line_mate[OF other, of p] MATE_SCORE_EQUIVALENT_CP_def
                 split: if_splits)
      ultimately show ?thesis using less by simp
    qed
    have dominate: "fst (snd (get_score_from_line (Some l) p)) \<and> \<bar>cap_score c False\<bar> < \<bar>s\<bar>"
      if nz: "m \<noteq> 0" and bound: "\<bar>m\<bar> < 29000"
        and s: "fst (get_score_from_line (Some l) p) = Some s"
    proof -
      have "\<bar>s\<bar> = 30000 - real_of_int \<bar>m\<bar>"
        using nz bound s by (auto simp: here MATE_SCORE_EQUIVALENT_CP_def split: if_splits)
      moreover have "fst (snd (get_score_from_line (Some l) p))"
        using nz by (auto simp: here)
      ultimately show ?thesis using cap bound by simp
    qed
    have order': "dict_get l' ''Mate'' = VInt m' \<and> 0 < m * m'
              \<and> \<bar>m\<bar> < \<bar>m'\<bar> \<and> \<bar>m'\<bar> \<le> 30000
              \<and> fst (get_score_from_line (Some l) p) = Some s
              \<and> fst (get_score_from_line (Some l') p) = Some s'
              \<longrightarrow> \<bar>s'\<bar> < \<bar>s\<bar>"
      using order by blast
    have dominate': "m \<noteq> 0 \<and> \<bar>m\<bar> < 29000
              \<and> fst (get_score_from_line (Some l) p) = Some s
              \<longrightarrow> fst (snd (get_score_from_line (Some l) p))
                  \<and> \<bar>cap_score c False\<bar> < \<bar>s\<bar>"
      using dominate by blast
    show ?thesis
      by (rule conjI[OF absent impI[OF conjI[OF zero conjI[OF pos conjI[OF neg
            conjI[OF order' dominate']]]]]])
  qed
  show ?thesis
  proof (cases "dict_get l ''Mate'' = VInt m")
    case True
    then show ?thesis by (rule rest)
  next
    case False
    with absent show ?thesis by simp
  qed
qed

theorem mate_score_mapping_witness:
  "get_score_from_line (Some [(''Mate'', VInt 3)]) WHITE = (Some 29997, True, Some 3)
   \<and> get_score_from_line (Some [(''Mate'', VInt 3)]) BLACK = (Some (- 29997), True, Some (- 3))
   \<and> get_score_from_line (Some [(''Mate'', VInt (- 2))]) WHITE = (Some (- 29998), True, Some (- 2))
   \<and> get_score_from_line (Some [(''Mate'', VInt (- 2))]) BLACK = (Some 29998, True, Some 2)
   \<and> fst (get_score_from_line (Some [(''Mate'', VInt 0)]) BLACK) = Some 0
   \<and> \<bar>29993 :: real\<bar> < \<bar>29997\<bar>
   \<and> \<bar>cap_score (Some 5000) False\<bar> < \<bar>29997 :: real\<bar>"
proof -
  have g: "dict_get [(''Mate'', VInt k)] ''Mate'' = VInt k" for k
    by (simp add: dict_get_def)
  have w3: "get_score_from_line (Some [(''Mate'', VInt 3)]) WHITE = (Some 29997, True, Some 3)"
    and b3: "get_score_from_line (Some [(''Mate'', VInt 3)]) BLACK
               = (Some (- 29997), True, Some (- 3))"
    using mate_score_mapping[where l = "[(''Mate'', VInt 3)]" and m = 3] g[of 3]
    by (simp_all add: MATE_SCORE_EQUIVALENT_CP_def)
  have w7: "get_score_from_line (Some [(''Mate'', VInt 7)]) WHITE = (Some 29993, True, Some 7)"
    using mate_score_mapping[where l = "[(''Mate'', VInt 7)]" and m = 7] g[of 7]
    by (simp add: MATE_SCORE_EQUIVALENT_CP_def)
  have w2: "get_score_from_line (Some [(''Mate'', VInt (- 2))]) WHITE
              = (Some (- 29998), True, Some (- 2))"
    and b2: "get_score_from_line (Some [(''Mate'', VInt (- 2))]) BLACK = (Some 29998, True, Some 2)"
    using mate_score_mapping[where l = "[(''Mate'', VInt (- 2))]" and m = "- 2"] g[of "- 2"]
    by (simp_all add: MATE_SCORE_EQUIVALENT_CP_def)
  have z: "fst (get_score_from_line (Some [(''Mate'', VInt 0)]) BLACK) = Some 0"
    using mate_score_mapping[where l = "[(''Mate'', VInt 0)]" and m = 0 and p = BLACK] g[of 0]
    by simp
  have ord: "\<bar>29993 :: real\<bar> < \<bar>29997\<bar>"
    using mate_score_mapping[where p = WHITE and l = "[(''Mate'', VInt 3)]" and m = 3
            and l' = "[(''Mate'', VInt 7)]" and m' = 7 and s = 29997 and s' = 29993]
    by (simp add: g w3 w7)
  have dom: "\<bar>cap_score (Some 5000) False\<bar> < \<bar>29997 :: real\<bar>"
    using mate_score_mapping[where p = WHITE and l = "[(''Mate'', VInt 3)]" and m = 3
            and s = 29997 and c = "Some 5000"]
    by (simp add: g w3)
  from w3 b3 w2 b2 z ord dom show ?thesis by (intro conjI)
qed

theorem mate_score_magnitude_counterexample:
  "get_score_from_line (Some [(''Mate'', VInt 30001)]) WHITE = (Some (- 1), True, Some 30001)
   \<and> get_score_from_line (Some [(''Mate'', VInt 60001)]) WHITE
       = (Some (- 30001), True, Some 60001)
   \<and> \<not> \<bar>- 30001 :: real\<bar> < \<bar>- 1\<bar>
   \<and> get_score_from_line (Some [(''Mate'', VInt 30000)]) WHITE = (Some 0, True, Some 30000)
   \<and> cap_score (Some 500) False = 500
   \<and> \<not> \<bar>500 :: real\<bar> < \<bar>0\<bar>"
  by (simp add: get_score_from_line_def score_locals_def dict_get_def py_int_def
                WHITE_def MATE_SCORE_EQUIVALENT_CP_def cap_score_def
                CPL_INDIVIDUAL_EVAL_CAP_CP_def)

subsection \<open>Move classification\<close>

text \<open>
  The Brilliant check succeeds exactly when its five conditions hold, and then yields
  the Brilliant result with the raw centipawn loss it was given.
\<close>

lemma check_for_brilliant_iff:
  "check_for_brilliant ctx raw = Some r \<longleftrightarrow>
     (\<exists>eval_player eval_before.
        eval_player_move ctx = Some eval_player \<and> eval_before_move ctx = Some eval_before
        \<and> raw \<le> max_cpl (brilliant_criteria ctx)
        \<and> \<not> (is_mate_before_move ctx \<and> 0 < eval_before)
        \<and> \<not> (\<not> is_mate_before_move ctx
               \<and> max_eval_before_move_cp (brilliant_criteria ctx) < eval_before)
        \<and> eval_before - eval_player \<le> eval_drop_leniency_cp (brilliant_criteria ctx)
        \<and> is_significant_piece_sacrifice ctx)
     \<and> r = \<lparr>classification_text = brilliant_text, cpl = 0, raw_cpl = raw,
             is_brilliant = True, is_great = False,
             is_engine_top_choice = False, is_engine_top_n_choice = False\<rparr>"
  by (auto simp: check_for_brilliant_def split: option.splits)

lemma rebuild_with_flags_raises:
  "rebuild_with_keywords r [(''is_engine_top_choice'', a), (''is_engine_top_n_choice'', b)]
     = Inl TypeError"
  by (simp add: rebuild_with_keywords_def result_dict_keys_def)

text \<open>Whenever the Brilliant check succeeds, the classifier raises.\<close>

lemma classify_move_brilliant_raises:
  assumes "eval_best_move ctx = Some best" and "eval_player_move ctx = Some player"
    and "check_for_brilliant ctx
           (cap_score (Some best) (is_mate_best_move ctx)
            - cap_score (Some player) (is_mate_player_move ctx)) = Some r"
  shows "classify_move ctx = Inl TypeError"
  using assms by (simp add: classify_move_def Let_def rebuild_with_flags_raises)

text \<open>No result that the classifier returns is flagged as brilliant.\<close>

lemma classify_move_never_brilliant:
  "classify_move ctx = Inr r \<Longrightarrow> \<not> is_brilliant r"
  by (auto simp: classify_move_def Let_def rebuild_with_flags_raises check_for_great_def
           split: option.splits if_splits)

text \<open>
  The missing-data guard: when the best evaluation or the played move's evaluation is
  absent, the result is the terminal "unavailable" classification with both CPL
  fields 0.
\<close>

lemma classify_move_unavailable:
  "eval_best_move ctx = None \<or> eval_player_move ctx = None \<Longrightarrow>
   classify_move ctx =
     Inr \<lparr>classification_text = ''Unavailable (eval error)'', cpl = 0, raw_cpl = 0,
          is_brilliant = False, is_great = False,
          is_engine_top_choice = False, is_engine_top_n_choice = False\<rparr>"
  by (auto simp: classify_move_def split: option.splits)

text \<open>
  Claim C1. \<^verbatim>\<open>classify_move\<close> returns a result for every context and never raises.
  The code raises \<^verbatim>\<open>TypeError\<close> on a context that passes the Brilliant check, here a
  knight sacrifice by Black that costs 5 centipawns.
\<close>

theorem classify_move_raises_on_knight_sacrifice:
  "classify_move knight_sacrifice_context = Inl TypeError"
  by (simp add: knight_sacrifice_context_def classifier_defs)

text \<open>
  Claim C3. A context that satisfies the Brilliant and the Great conditions together is
  classified as Brilliant. On such a context both checks succeed, and the code raises
  \<^verbatim>\<open>TypeError\<close> in the Brilliant branch: it returns neither classification.
\<close>

theorem brilliant_and_great_raises:
  "check_for_brilliant brilliant_and_great_context 0
     = Some \<lparr>classification_text = brilliant_text, cpl = 0, raw_cpl = 0,
             is_brilliant = True, is_great = False,
             is_engine_top_choice = False, is_engine_top_n_choice = False\<rparr>
   \<and> check_for_great brilliant_and_great_context True
     = Some \<lparr>classification_text = ''Great Move !'', cpl = 0, raw_cpl = 0,
             is_brilliant = False, is_great = True,
             is_engine_top_choice = True, is_engine_top_n_choice = True\<rparr>
   \<and> top_choice brilliant_and_great_context
   \<and> classify_move brilliant_and_great_context = Inl TypeError"
  by (simp add: brilliant_and_great_context_def classifier_defs)

text \<open>
  Claim C4. \<^verbatim>\<open>classify_move\<close> returns the Brilliant result exactly when the Brilliant
  conditions hold. On the rook sacrifice, with raw CPL 5, evaluation before the move
  120, evaluation drop 5 and 5 pawn units sacrificed, the Brilliant check yields the
  Brilliant result, and \<^verbatim>\<open>classify_move\<close> raises \<^verbatim>\<open>TypeError\<close> while attaching the
  top-choice flags to it.
\<close>

theorem brilliant_result_is_not_returned:
  "check_for_brilliant rook_sacrifice_context 5
     = Some \<lparr>classification_text = brilliant_text, cpl = 0, raw_cpl = 5,
             is_brilliant = True, is_great = False,
             is_engine_top_choice = False, is_engine_top_n_choice = False\<rparr>
   \<and> classify_move rook_sacrifice_context = Inl TypeError"
  by (simp add: rook_sacrifice_context_def classifier_defs)

text \<open>The tier is the first entry of the table whose threshold is not exceeded.\<close>

lemma first_tier_find:
  "first_tier table c =
     (case find (\<lambda>(name, threshold). c \<le> threshold) table of
        None \<Rightarrow> ''Blunder'' | Some (name, threshold) \<Rightarrow> name)"
  by (induction table c rule: first_tier.induct) auto

lemma get_standard_classification_tiers:
  "get_standard_classification c =
     (if c \<le> 5 then ''Best'' else if c \<le> 40 then ''Good'' else if c \<le> 70 then ''OK''
      else if c \<le> 90 then ''Dubious'' else if c \<le> 180 then ''Inaccuracy''
      else if c \<le> 300 then ''Mistake'' else ''Blunder'')"
  by (simp add: get_standard_classification_def MOVE_CLASSIFICATION_THRESHOLDS_def)

text \<open>
  Claim C5. When both evaluations are present and neither the Brilliant nor the Great
  check succeeds, the result carries the raw CPL \<open>cap(best) - cap(player)\<close>, where
  \<open>cap\<close> clamps a non-mate score to \<open>\<plusminus>1000\<close> and leaves a mate score as it is; the
  metrics CPL is the raw CPL clamped into \<open>[0, 1000]\<close>, so it is 0 for a raw CPL that is
  0 or negative; and the label of the result is that of the first tier whose threshold
  is not below the metrics CPL (Best 5, Good 40, OK 70, Dubious 90, Inaccuracy 180,
  Mistake 300), or Blunder above them all, followed by the metrics CPL in parentheses
  except for Best. A metrics CPL equal to a threshold falls in that tier.
\<close>

theorem standard_tiered_classification:
  assumes best: "eval_best_move ctx = Some best"
    and player: "eval_player_move ctx = Some player"
    and raw: "raw = cap_score (Some best) (is_mate_best_move ctx)
                    - cap_score (Some player) (is_mate_player_move ctx)"
    and not_brilliant: "check_for_brilliant ctx raw = None"
    and not_great: "check_for_great ctx (top_choice ctx) = None"
  shows "(\<exists>r. classify_move ctx = Inr r
            \<and> raw_cpl r = raw
            \<and> cpl r = min 1000 (max 0 raw)
            \<and> 0 \<le> cpl r \<and> cpl r \<le> 1000 \<and> (raw \<le> 0 \<longrightarrow> cpl r = 0)
            \<and> classification_text r
                = (if cpl r \<le> 5 then ''Best''
                   else if cpl r \<le> 40 then ''Good (CPL: '' @ fmt_0f (cpl r) @ '')''
                   else if cpl r \<le> 70 then ''OK (CPL: '' @ fmt_0f (cpl r) @ '')''
                   else if cpl r \<le> 90 then ''Dubious (CPL: '' @ fmt_0f (cpl r) @ '')''
                   else if cpl r \<le> 180 then ''Inaccuracy (CPL: '' @ fmt_0f (cpl r) @ '')''
                   else if cpl r \<le> 300 then ''Mistake (CPL: '' @ fmt_0f (cpl r) @ '')''
                   else ''Blunder !!! (CPL: '' @ fmt_0f (cpl r) @ '')'')
            \<and> classification_text r
                = classification_text_of (get_standard_classification (cpl r)) (cpl r)
            \<and> \<not> is_brilliant r \<and> \<not> is_great r
            \<and> is_engine_top_choice r = top_choice ctx
            \<and> is_engine_top_n_choice r = top_n_choice ctx)
         \<and> cap_score (Some x) True = x
         \<and> cap_score (Some x) False = min 1000 (max (- 1000) x)
         \<and> get_standard_classification c
             = (if c \<le> 5 then ''Best'' else if c \<le> 40 then ''Good''
                else if c \<le> 70 then ''OK'' else if c \<le> 90 then ''Dubious''
                else if c \<le> 180 then ''Inaccuracy'' else if c \<le> 300 then ''Mistake''
                else ''Blunder'')"
proof -
  define m where "m = min 1000 (max 0 raw)"
  have run: "classify_move ctx =
          Inr \<lparr>classification_text = classification_text_of (get_standard_classification m) m,
               cpl = m, raw_cpl = raw,
               is_brilliant = False, is_great = False,
               is_engine_top_choice = top_choice ctx,
               is_engine_top_n_choice = top_n_choice ctx\<rparr>"
    using best player not_brilliant not_great unfolding raw m_def
    by (simp add: classify_move_def Let_def ACPL_MOVE_CPL_CAP_CP_def)
  have label: "classification_text_of (get_standard_classification m) m
                = (if m \<le> 5 then ''Best''
                   else if m \<le> 40 then ''Good (CPL: '' @ fmt_0f m @ '')''
                   else if m \<le> 70 then ''OK (CPL: '' @ fmt_0f m @ '')''
                   else if m \<le> 90 then ''Dubious (CPL: '' @ fmt_0f m @ '')''
                   else if m \<le> 180 then ''Inaccuracy (CPL: '' @ fmt_0f m @ '')''
                   else if m \<le> 300 then ''Mistake (CPL: '' @ fmt_0f m @ '')''
                   else ''Blunder !!! (CPL: '' @ fmt_0f m @ '')'')"
    by (simp add: classification_text_of_def get_standard_classification_tiers)
  have bounds: "0 \<le> m" "m \<le> 1000" "raw \<le> 0 \<longrightarrow> m = 0"
    by (simp_all add: m_def)
  have result: "\<exists>r. classify_move ctx = Inr r
            \<and> raw_cpl r = raw
            \<and> cpl r = m
            \<and> 0 \<le> cpl r \<and> cpl r \<le> 1000 \<and> (raw \<le> 0 \<longrightarrow> cpl r = 0)
            \<and> classification_text r
                = (if cpl r \<le> 5 then ''Best''
                   else if cpl r \<le> 40 then ''Good (CPL: '' @ fmt_0f (cpl r) @ '')''
                   else if cpl r \<le> 70 then ''OK (CPL: '' @ fmt_0f (cpl r) @ '')''
                   else if cpl r \<le> 90 then ''Dubious (CPL: '' @ fmt_0f (cpl r) @ '')''
                   else if cpl r \<le> 180 then ''Inaccuracy (CPL: '' @ fmt_0f (cpl r) @ '')''
                   else if cpl r \<le> 300 then ''Mistake (CPL: '' @ fmt_0f (cpl r) @ '')''
                   else ''Blunder !!! (CPL: '' @ fmt_0f (cpl r) @ '')'')
            \<and> classification_text r
                = classification_text_of (get_standard_classification (cpl r)) (cpl r)
            \<and> \<not> is_brilliant r \<and> \<not> is_great r
            \<and> is_engine_top_choice r = top_choice ctx
            \<and> is_engine_top_n_choice r = top_n_choice ctx"
    unfolding run using label bounds by simp
  have cap: "cap_score (Some x) True = x"
    "cap_score (Some x) False = min 1000 (max (- 1000) x)"
    by (simp_all add: cap_score_def CPL_INDIVIDUAL_EVAL_CAP_CP_def)
  show ?thesis
    using result[unfolded m_def] cap get_standard_classification_tiers[of c] by (intro conjI)
qed

lemma fmt_0f_values:
  "fmt_0f 250 = ''250''" "fmt_0f 1000 = ''1000''" "fmt_0f 37 = ''37''"
  by code_simp+

theorem standard_tiered_classification_witness:
  "classify_move mistake_context
     = Inr \<lparr>classification_text = ''Mistake (CPL: 250)'', cpl = 250, raw_cpl = 250,
            is_brilliant = False, is_great = False,
            is_engine_top_choice = False, is_engine_top_n_choice = False\<rparr>
   \<and> classify_move blunder_context
     = Inr \<lparr>classification_text = ''Blunder !!! (CPL: 1000)'', cpl = 1000, raw_cpl = 1800,
            is_brilliant = False, is_great = False,
            is_engine_top_choice = False, is_engine_top_n_choice = False\<rparr>
   \<and> classify_move improved_context
     = Inr \<lparr>classification_text = ''Best'', cpl = 0, raw_cpl = - 30,
            is_brilliant = False, is_great = False,
            is_engine_top_choice = False, is_engine_top_n_choice = True\<rparr>
   \<and> classify_move missed_mate_context
     = Inr \<lparr>classification_text = ''Blunder !!! (CPL: 1000)'', cpl = 1000, raw_cpl = 28999,
            is_brilliant = False, is_great = False,
            is_engine_top_choice = False, is_engine_top_n_choice = False\<rparr>
   \<and> classify_move good_context
     = Inr \<lparr>classification_text = ''Good (CPL: 37)'', cpl = 37, raw_cpl = 37,
            is_brilliant = False, is_great = False,
            is_engine_top_choice = False, is_engine_top_n_choice = False\<rparr>
   \<and> get_standard_classification 5 = ''Best''
   \<and> get_standard_classification (501 / 100) = ''Good''"
proof -
  note ctx_defs = mistake_context_def blunder_context_def improved_context_def
    missed_mate_context_def good_context_def
  have general:
    "classify_move c
       = Inr \<lparr>classification_text = label, cpl = m, raw_cpl = raw,
              is_brilliant = False, is_great = False,
              is_engine_top_choice = top_choice c, is_engine_top_n_choice = top_n_choice c\<rparr>"
    if eb: "eval_best_move c = Some b" and ep: "eval_player_move c = Some p"
      and rw: "raw = cap_score (Some b) (is_mate_best_move c)
                 - cap_score (Some p) (is_mate_player_move c)"
      and nbr: "check_for_brilliant c raw = None"
      and ngr: "check_for_great c (top_choice c) = None"
      and mm: "m = min 1000 (max 0 raw)"
      and lb: "label = (if m \<le> 5 then ''Best''
                   else if m \<le> 40 then ''Good (CPL: '' @ fmt_0f m @ '')''
                   else if m \<le> 70 then ''OK (CPL: '' @ fmt_0f m @ '')''
                   else if m \<le> 90 then ''Dubious (CPL: '' @ fmt_0f m @ '')''
                   else if m \<le> 180 then ''Inaccuracy (CPL: '' @ fmt_0f m @ '')''
                   else if m \<le> 300 then ''Mistake (CPL: '' @ fmt_0f m @ '')''
                   else ''Blunder !!! (CPL: '' @ fmt_0f m @ '')'')"
    for c b p raw m label
  proof -
    note th = standard_tiered_classification[OF eb ep rw nbr ngr, where c = 0 and x = 0,
                THEN conjunct1]
    from th obtain r where run: "classify_move c = Inr r" and r_raw: "raw_cpl r = raw"
      and r_cpl: "cpl r = min 1000 (max 0 raw)"
      and r_text: "classification_text r
                = (if cpl r \<le> 5 then ''Best''
                   else if cpl r \<le> 40 then ''Good (CPL: '' @ fmt_0f (cpl r) @ '')''
                   else if cpl r \<le> 70 then ''OK (CPL: '' @ fmt_0f (cpl r) @ '')''
                   else if cpl r \<le> 90 then ''Dubious (CPL: '' @ fmt_0f (cpl r) @ '')''
                   else if cpl r \<le> 180 then ''Inaccuracy (CPL: '' @ fmt_0f (cpl r) @ '')''
                   else if cpl r \<le> 300 then ''Mistake (CPL: '' @ fmt_0f (cpl r) @ '')''
                   else ''Blunder !!! (CPL: '' @ fmt_0f (cpl r) @ '')'')"
      and r_flags: "\<not> is_brilliant r" "\<not> is_great r"
        "is_engine_top_choice r = top_choice c" "is_engine_top_n_choice r = top_n_choice c"
      by blast
    have r_m: "cpl r = m" using r_cpl mm by simp
    have r_label: "classification_text r = label"
      using r_text unfolding r_m lb .
    from run r_raw r_m r_label r_flags show ?thesis by (cases r) simp
  qed
  have cap: "CPL_INDIVIDUAL_EVAL_CAP_CP = 1000"
    by (simp add: CPL_INDIVIDUAL_EVAL_CAP_CP_def)
  have tops:
    "\<not> top_choice mistake_context" "\<not> top_n_choice mistake_context"
    "\<not> top_choice blunder_context" "\<not> top_n_choice blunder_context"
    "\<not> top_choice improved_context" "top_n_choice improved_context"
    "\<not> top_choice missed_mate_context" "\<not> top_n_choice missed_mate_context"
    "\<not> top_choice good_context" "\<not> top_n_choice good_context"
    by (simp_all add: ctx_defs top_choice_def top_n_choice_def dict_get_def)
  have a: "classify_move mistake_context
     = Inr \<lparr>classification_text = ''Mistake (CPL: 250)'', cpl = 250, raw_cpl = 250,
            is_brilliant = False, is_great = False,
            is_engine_top_choice = False, is_engine_top_n_choice = False\<rparr>"
    using general[of mistake_context 300 50 250 250 "''Mistake (CPL: 250)''"] tops
    by (simp add: ctx_defs cap_score_def cap check_for_brilliant_def check_for_great_def
          BRILLIANT_CRITERIA_def fmt_0f_values)
  have b: "classify_move blunder_context
     = Inr \<lparr>classification_text = ''Blunder !!! (CPL: 1000)'', cpl = 1000, raw_cpl = 1800,
            is_brilliant = False, is_great = False,
            is_engine_top_choice = False, is_engine_top_n_choice = False\<rparr>"
    using general[of blunder_context 900 "- 900" 1800 1000 "''Blunder !!! (CPL: 1000)''"] tops
    by (simp add: ctx_defs cap_score_def cap check_for_brilliant_def check_for_great_def
          BRILLIANT_CRITERIA_def fmt_0f_values)
  have c: "classify_move improved_context
     = Inr \<lparr>classification_text = ''Best'', cpl = 0, raw_cpl = - 30,
            is_brilliant = False, is_great = False,
            is_engine_top_choice = False, is_engine_top_n_choice = True\<rparr>"
    using general[of improved_context 30 60 "- 30" 0 "''Best''"] tops
    by (simp add: ctx_defs cap_score_def cap check_for_brilliant_def check_for_great_def
          BRILLIANT_CRITERIA_def is_significant_piece_sacrifice_def)
  have d: "classify_move missed_mate_context
     = Inr \<lparr>classification_text = ''Blunder !!! (CPL: 1000)'', cpl = 1000, raw_cpl = 28999,
            is_brilliant = False, is_great = False,
            is_engine_top_choice = False, is_engine_top_n_choice = False\<rparr>"
    using general[of missed_mate_context 29999 2000 28999 1000 "''Blunder !!! (CPL: 1000)''"] tops
    by (simp add: ctx_defs cap_score_def cap check_for_brilliant_def check_for_great_def
          BRILLIANT_CRITERIA_def fmt_0f_values)
  have e: "classify_move good_context
     = Inr \<lparr>classification_text = ''Good (CPL: 37)'', cpl = 37, raw_cpl = 37,
            is_brilliant = False, is_great = False,
            is_engine_top_choice = False, is_engine_top_n_choice = False\<rparr>"
    using general[of good_context 57 20 37 37 "''Good (CPL: 37)''"] tops
    by (simp add: ctx_defs cap_score_def cap check_for_brilliant_def check_for_great_def
          BRILLIANT_CRITERIA_def fmt_0f_values)
  have best: "eval_best_move mistake_context = Some 300"
    and player: "eval_player_move mistake_context = Some 50"
    by (simp_all add: mistake_context_def)
  have raw: "(250::real) = cap_score (Some 300) (is_mate_best_move mistake_context)
                    - cap_score (Some 50) (is_mate_player_move mistake_context)"
    by (simp add: mistake_context_def cap_score_def cap)
  have nb: "check_for_brilliant mistake_context 250 = None"
    by (simp add: mistake_context_def check_for_brilliant_def BRILLIANT_CRITERIA_def)
  have ng: "check_for_great mistake_context (top_choice mistake_context) = None"
    using tops by (simp add: check_for_great_def)
  note t = standard_tiered_classification[OF best player raw nb ng]
  have t5: "get_standard_classification 5 = ''Best''"
    using t[where c = 5] by simp
  have t501: "get_standard_classification (501 / 100) = ''Good''"
    using t[where c = "501 / 100"] by simp
  from a b c d e t5 t501 show ?thesis by (intro conjI)
qed

text \<open>
  Claim C6, amended. \<^verbatim>\<open>classify_move\<close> returns the Great result (label "Great Move !",
  both CPL fields 0, \<open>is_great\<close> and both top-choice flags set) exactly when the best
  evaluation and the played move's evaluation are present, the Brilliant check does not
  succeed, the played move is the move of the first engine line, the requested number
  of lines is at least 2, the evaluations of the first and the second line exist and
  neither is a mate score, and their gap is at least the configured minimum.
\<close>

theorem great_move_iff:
  "classify_move ctx
     = Inr \<lparr>classification_text = ''Great Move !'', cpl = 0, raw_cpl = 0,
            is_brilliant = False, is_great = True,
            is_engine_top_choice = True, is_engine_top_n_choice = True\<rparr>
   \<longleftrightarrow>
   (\<exists>best player second.
      eval_best_move ctx = Some best \<and> eval_player_move ctx = Some player
      \<and> check_for_brilliant ctx
            (cap_score (Some best) (is_mate_best_move ctx)
             - cap_score (Some player) (is_mate_player_move ctx)) = None
      \<and> top_choice ctx
      \<and> 2 \<le> engine_multipv ctx
      \<and> eval_second_best_move ctx = Some second
      \<and> \<not> is_mate_best_move ctx \<and> \<not> is_mate_second_best_move ctx
      \<and> min_uniqueness_gain_cp (great_criteria ctx) \<le> best - second)"
  by (auto simp: classify_move_def Let_def rebuild_with_flags_raises check_for_great_def
           split: option.splits if_splits)

theorem great_move_iff_witness:
  "classify_move great_context
     = Inr \<lparr>classification_text = ''Great Move !'', cpl = 0, raw_cpl = 0,
            is_brilliant = False, is_great = True,
            is_engine_top_choice = True, is_engine_top_n_choice = True\<rparr>"
proof -
  have "check_for_brilliant great_context
          (cap_score (Some 400) (is_mate_best_move great_context)
           - cap_score (Some 400) (is_mate_player_move great_context)) = None"
    by (simp add: great_context_def quiet_board_def classifier_defs)
  moreover have "top_choice great_context"
    by (simp add: great_context_def top_choice_def dict_get_def)
  moreover have "eval_best_move great_context = Some 400"
    "eval_player_move great_context = Some 400"
    "eval_second_best_move great_context = Some 250"
    "2 \<le> engine_multipv great_context"
    "\<not> is_mate_best_move great_context" "\<not> is_mate_second_best_move great_context"
    "min_uniqueness_gain_cp (great_criteria great_context) \<le> 400 - 250"
    by (simp_all add: great_context_def GREAT_CRITERIA_def)
  ultimately show ?thesis
    unfolding great_move_iff by blast
qed

theorem great_conditions_without_player_eval_counterexample:
  "top_choice great_without_player_eval_context
   \<and> engine_multipv great_without_player_eval_context = 2
   \<and> eval_best_move great_without_player_eval_context = Some 400
   \<and> eval_second_best_move great_without_player_eval_context = Some 250
   \<and> \<not> is_mate_best_move great_without_player_eval_context
   \<and> \<not> is_mate_second_best_move great_without_player_eval_context
   \<and> min_uniqueness_gain_cp (great_criteria great_without_player_eval_context) = 120
   \<and> check_for_brilliant great_without_player_eval_context 0 = None
   \<and> classify_move great_without_player_eval_context
       = Inr \<lparr>classification_text = ''Unavailable (eval error)'', cpl = 0, raw_cpl = 0,
              is_brilliant = False, is_great = False,
              is_engine_top_choice = False, is_engine_top_n_choice = False\<rparr>"
  by (simp add: great_without_player_eval_context_def classify_move_def
        check_for_brilliant_def top_choice_def dict_get_def GREAT_CRITERIA_def)

subsection \<open>Game summary\<close>

lemma map_of_counter_add:
  "map_of (counter_add x acc) k =
     (if k = x then Some (case map_of acc x of None \<Rightarrow> 1 | Some n \<Rightarrow> n + 1) else map_of acc k)"
  by (induction x acc rule: counter_add.induct) auto

lemma map_of_counter_fold:
  "map_of (foldl (\<lambda>acc x. counter_add x acc) acc xs) k =
     (case map_of acc k of
        None \<Rightarrow> if k \<in> set xs then Some (count_list xs k) else None
      | Some n \<Rightarrow> Some (n + count_list xs k))"
proof (induction xs arbitrary: acc)
  case Nil
  then show ?case by (simp split: option.splits)
next
  case (Cons x xs)
  show ?case
    by (auto simp: Cons.IH map_of_counter_add split: option.splits)
qed

lemma map_of_Counter:
  "map_of (Counter xs) k = (if k \<in> set xs then Some (count_list xs k) else None)"
  by (simp add: Counter_def map_of_counter_fold)

lemma enumerate_filter_index:
  "map snd (filter (\<lambda>(i, r). P i) (enumerate 0 rs)) = nths rs {i. P i}"
proof -
  have "enumerate 0 rs = map (\<lambda>(x, y). (y, x)) (zip rs [0..<length rs])"
    by (simp add: enumerate_eq_zip zip_commute[of "[0..<length rs]" rs])
  then show ?thesis
    by (simp add: nths_def filter_map comp_def case_prod_unfold)
qed

lemma build_game_summary_targeted:
  assumes "t \<noteq> []"
    and "is_w = (lower t = lower (headers_get (game_headers game) ''White'' []))"
    and "is_b = (lower t = lower (headers_get (game_headers game) ''Black'' []))"
    and "is_w \<or> is_b"
    and "plies = map snd (filter (\<lambda>(i, r). (is_w \<and> i mod 2 = 0) \<or> (is_b \<and> i mod 2 \<noteq> 0))
                            (enumerate 0 results))"
  shows "build_game_summary lower strip game gid (Some t) results =
           (if plies = [] then None
            else Some \<lparr>game_id = gid,
                       analyzed_player_name =
                         (if is_w then headers_get (game_headers game) ''White'' []
                          else headers_get (game_headers game) ''Black'' []),
                       player_color_str = (if is_w then ''White'' else ''Black''),
                       player_cpls = map cpl plies,
                       move_classification_counts = Counter (map (simplified_label strip) plies),
                       engine_top1_match_count = length (filter is_engine_top_choice plies),
                       engine_topN_match_count = length (filter is_engine_top_n_choice plies),
                       pgn_headers = game_headers game\<rparr>)"
  using assms(1,4) unfolding assms(2,3,5) build_game_summary_def Let_def by auto

text \<open>
  Claim C10, amended. \<^verbatim>\<open>build_game_summary\<close> returns no summary when no target player is
  given (\<^verbatim>\<open>None\<close> or the empty string) or when the target's name equals neither the
  White nor the Black header, compared after \<^verbatim>\<open>lower()\<close>. When the target matches the
  White header only, the summary is labelled White and is built from the results at
  the even indices and from nothing else: its CPL sequence, its label counts (each
  label cut at the first parenthesis and stripped) and its top-1 and top-N counts.
  When it matches the Black header only, the summary is labelled Black and built from
  the results at the odd indices. When it matches both headers, the summary is
  labelled White and built from every result. There is no summary when the
  contributing results are empty.
\<close>

theorem game_summary_for_target:
  fixes game :: "'b Game"
  assumes white: "white = headers_get (game_headers game) ''White'' []"
    and black: "black = headers_get (game_headers game) ''Black'' []"
    and even_plies: "even_plies = nths results {i. even i}"
    and odd_plies: "odd_plies = nths results {i. odd i}"
    and summary_of:
      "summary_of = (\<lambda>side name plies.
         if plies = [] then None
         else Some \<lparr>game_id = gid, analyzed_player_name = name, player_color_str = side,
                    player_cpls = map cpl plies,
                    move_classification_counts = Counter (map (simplified_label strip) plies),
                    engine_top1_match_count = length (filter is_engine_top_choice plies),
                    engine_topN_match_count = length (filter is_engine_top_n_choice plies),
                    pgn_headers = game_headers game\<rparr>)"
  shows
    "build_game_summary lower strip game gid None results = None
     \<and> build_game_summary lower strip game gid (Some []) results = None
     \<and> (lower t \<noteq> lower white \<and> lower t \<noteq> lower black \<longrightarrow>
          build_game_summary lower strip game gid (Some t) results = None)
     \<and> (t \<noteq> [] \<and> lower t = lower white \<and> lower t \<noteq> lower black \<longrightarrow>
          build_game_summary lower strip game gid (Some t) results
            = summary_of ''White'' white even_plies)
     \<and> (t \<noteq> [] \<and> lower t = lower black \<and> lower t \<noteq> lower white \<longrightarrow>
          build_game_summary lower strip game gid (Some t) results
            = summary_of ''Black'' black odd_plies)
     \<and> (t \<noteq> [] \<and> lower t = lower white \<and> lower t = lower black \<longrightarrow>
          build_game_summary lower strip game gid (Some t) results
            = summary_of ''White'' white results)
     \<and> map_of (Counter (map (simplified_label strip) plies)) label =
           (if label \<in> set (map (simplified_label strip) plies)
            then Some (count_list (map (simplified_label strip) plies) label) else None)
     \<and> simplified_label strip r
           = strip (takeWhile (\<lambda>c. c \<noteq> CHR ''('') (classification_text r))"
proof -
  have ev: "map snd (filter (\<lambda>(i, r). i mod 2 = 0) (enumerate 0 results)) = even_plies"
    using enumerate_filter_index[of "\<lambda>i. i mod 2 = 0" results]
    by (simp add: even_plies even_iff_mod_2_eq_zero)
  have od: "map snd (filter (\<lambda>(i, r). i mod 2 \<noteq> 0) (enumerate 0 results)) = odd_plies"
    using enumerate_filter_index[of "\<lambda>i. i mod 2 \<noteq> 0" results]
    by (simp add: odd_plies even_iff_mod_2_eq_zero)
  have none: "build_game_summary lower strip game gid None results = None"
    "build_game_summary lower strip game gid (Some []) results = None"
    by (simp_all add: build_game_summary_def)
  have neither: "lower t \<noteq> lower white \<and> lower t \<noteq> lower black \<longrightarrow>
          build_game_summary lower strip game gid (Some t) results = None"
    by (simp add: build_game_summary_def white black Let_def)
  have white_only: "t \<noteq> [] \<and> lower t = lower white \<and> lower t \<noteq> lower black \<longrightarrow>
          build_game_summary lower strip game gid (Some t) results
            = summary_of ''White'' white even_plies"
  proof (intro impI, elim conjE)
    assume t: "t \<noteq> []" and w: "lower t = lower white" and b: "lower t \<noteq> lower black"
    have plies: "even_plies = map snd (filter (\<lambda>(i, r). (True \<and> i mod 2 = 0) \<or> (False \<and> i mod 2 \<noteq> 0))
                            (enumerate 0 results))"
      using ev by simp
    show "build_game_summary lower strip game gid (Some t) results
            = summary_of ''White'' white even_plies"
      using build_game_summary_targeted[OF t _ _ _ plies, of lower game strip gid] w b
      by (simp add: white black summary_of)
  qed
  have black_only: "t \<noteq> [] \<and> lower t = lower black \<and> lower t \<noteq> lower white \<longrightarrow>
          build_game_summary lower strip game gid (Some t) results
            = summary_of ''Black'' black odd_plies"
  proof (intro impI, elim conjE)
    assume t: "t \<noteq> []" and b: "lower t = lower black" and w: "lower t \<noteq> lower white"
    have plies: "odd_plies = map snd (filter (\<lambda>(i, r). (False \<and> i mod 2 = 0) \<or> (True \<and> i mod 2 \<noteq> 0))
                            (enumerate 0 results))"
      using od by simp
    show "build_game_summary lower strip game gid (Some t) results
            = summary_of ''Black'' black odd_plies"
      using build_game_summary_targeted[OF t _ _ _ plies, of lower game strip gid] w b
      by (simp add: white black summary_of)
  qed
  have both: "t \<noteq> [] \<and> lower t = lower white \<and> lower t = lower black \<longrightarrow>
          build_game_summary lower strip game gid (Some t) results
            = summary_of ''White'' white results"
  proof (intro impI, elim conjE)
    assume t: "t \<noteq> []" and w: "lower t = lower white" and b: "lower t = lower black"
    have plies: "results = map snd (filter (\<lambda>(i, r). (True \<and> i mod 2 = 0) \<or> (True \<and> i mod 2 \<noteq> 0))
                            (enumerate 0 results))"
    proof -
      have "(\<lambda>(i :: nat, r :: ClassificationResult).
               (True \<and> i mod 2 = 0) \<or> (True \<and> i mod 2 \<noteq> 0)) = (\<lambda>p. True)"
        by auto
      then show ?thesis by simp
    qed
    show "build_game_summary lower strip game gid (Some t) results
            = summary_of ''White'' white results"
      using build_game_summary_targeted[OF t _ _ _ plies, of lower game strip gid] w b
      by (simp add: white black summary_of)
  qed
  have counts: "map_of (Counter (map (simplified_label strip) plies)) label =
           (if label \<in> set (map (simplified_label strip) plies)
            then Some (count_list (map (simplified_label strip) plies) label) else None)"
    by (rule map_of_Counter)
  have label: "simplified_label strip r
                 = strip (takeWhile (\<lambda>c. c \<noteq> CHR ''('') (classification_text r))"
    by (simp add: simplified_label_def)
  show ?thesis
    by (rule conjI[OF none(1) conjI[OF none(2) conjI[OF neither conjI[OF white_only
          conjI[OF black_only conjI[OF both conjI[OF counts label]]]]]]])
qed

theorem game_summary_for_target_witness:
  "build_game_summary ascii_lower str_strip sample_game ''game1'' (Some ''player a'')
     sample_results =
     Some \<lparr>game_id = ''game1'', analyzed_player_name = ''Player A'',
           player_color_str = ''White'', player_cpls = [0, 20, 30],
           move_classification_counts = [(''Best'', 1), (''Good'', 2)],
           engine_top1_match_count = 1, engine_topN_match_count = 2,
           pgn_headers = game_headers sample_game\<rparr>
   \<and> build_game_summary ascii_lower str_strip sample_game ''game1'' (Some ''PLAYER B'')
       sample_results =
     Some \<lparr>game_id = ''game1'', analyzed_player_name = ''Player B'',
           player_color_str = ''Black'', player_cpls = [60, 400, 0],
           move_classification_counts = [(''OK'', 1), (''Blunder !!!'', 1), (''Best'', 1)],
           engine_top1_match_count = 0, engine_topN_match_count = 0,
           pgn_headers = game_headers sample_game\<rparr>
   \<and> build_game_summary ascii_lower str_strip sample_game ''game1'' (Some ''Player C'')
       sample_results = None
   \<and> build_game_summary ascii_lower str_strip self_play_game ''game2'' (Some ''PLAYER A'')
       [sample_results ! 0, sample_results ! 1] =
     Some \<lparr>game_id = ''game2'', analyzed_player_name = ''Player A'',
           player_color_str = ''White'', player_cpls = [0, 60],
           move_classification_counts = [(''Best'', 1), (''OK'', 1)],
           engine_top1_match_count = 1, engine_topN_match_count = 1,
           pgn_headers = game_headers self_play_game\<rparr>"
proof -
  define ev where "ev = [sample_results ! 0, sample_results ! 2, sample_results ! 4]"
  define od where "od = [sample_results ! 1, sample_results ! 3, sample_results ! 5]"
  define two where "two = [sample_results ! 0, sample_results ! 1]"
  have white: "''Player A'' = headers_get (game_headers sample_game) ''White'' []"
    and black: "''Player B'' = headers_get (game_headers sample_game) ''Black'' []"
    by (simp_all add: sample_game_def headers_get_def)
  have white2: "''Player A'' = headers_get (game_headers self_play_game) ''White'' []"
    and black2: "''player a'' = headers_get (game_headers self_play_game) ''Black'' []"
    by (simp_all add: self_play_game_def headers_get_def)
  have evens: "ev = nths sample_results {i. even i}"
    by (simp add: ev_def sample_results_def nths_Cons)
  have odds: "od = nths sample_results {i. odd i}"
    by (simp add: od_def sample_results_def nths_Cons)
  note t = game_summary_for_target[OF white black evens odds refl,
             where lower = ascii_lower and strip = str_strip and gid = "''game1''"]
  note t2 = game_summary_for_target[OF white2 black2 refl refl refl,
             where lower = ascii_lower and strip = str_strip and gid = "''game2''"
               and results = two and t = "''PLAYER A''"]
  have lower: "ascii_lower ''player a'' = ascii_lower ''Player A''"
    "ascii_lower ''player a'' \<noteq> ascii_lower ''Player B''"
    "ascii_lower ''PLAYER B'' = ascii_lower ''Player B''"
    "ascii_lower ''PLAYER B'' \<noteq> ascii_lower ''Player A''"
    "ascii_lower ''Player C'' \<noteq> ascii_lower ''Player A''"
    "ascii_lower ''Player C'' \<noteq> ascii_lower ''Player B''"
    "ascii_lower ''PLAYER A'' = ascii_lower ''Player A''"
    by code_simp+
  have labels:
    "Counter (map (simplified_label str_strip)
       [sample_results ! 0, sample_results ! 2, sample_results ! 4])
       = [(''Best'', 1), (''Good'', 2)]"
    "Counter (map (simplified_label str_strip)
       [sample_results ! 1, sample_results ! 3, sample_results ! 5])
       = [(''OK'', 1), (''Blunder !!!'', 1), (''Best'', 1)]"
    "Counter (map (simplified_label str_strip) [sample_results ! 0, sample_results ! 1])
       = [(''Best'', 1), (''OK'', 1)]"
    by code_simp+
  have facts:
    "ev \<noteq> []" "od \<noteq> []" "two \<noteq> []"
    "map cpl ev = [0, 20, 30]" "map cpl od = [60, 400, 0]" "map cpl two = [0, 60]"
    "length (filter is_engine_top_choice ev) = 1"
    "length (filter is_engine_top_n_choice ev) = 2"
    "length (filter is_engine_top_choice od) = 0"
    "length (filter is_engine_top_n_choice od) = 0"
    "length (filter is_engine_top_choice two) = 1"
    "length (filter is_engine_top_n_choice two) = 1"
    by (simp_all add: ev_def od_def two_def sample_results_def plain_result_def)
  have counts:
    "Counter (map (simplified_label str_strip) ev) = [(''Best'', 1), (''Good'', 2)]"
    "Counter (map (simplified_label str_strip) od)
       = [(''OK'', 1), (''Blunder !!!'', 1), (''Best'', 1)]"
    "Counter (map (simplified_label str_strip) two) = [(''Best'', 1), (''OK'', 1)]"
    using labels by (simp_all only: ev_def od_def two_def)
  have w: "build_game_summary ascii_lower str_strip sample_game ''game1'' (Some ''player a'')
     sample_results =
     Some \<lparr>game_id = ''game1'', analyzed_player_name = ''Player A'',
           player_color_str = ''White'', player_cpls = [0, 20, 30],
           move_classification_counts = [(''Best'', 1), (''Good'', 2)],
           engine_top1_match_count = 1, engine_topN_match_count = 2,
           pgn_headers = game_headers sample_game\<rparr>"
    using t[where t = "''player a''"] lower(1,2)
    by (simp add: facts counts)
  have b: "build_game_summary ascii_lower str_strip sample_game ''game1'' (Some ''PLAYER B'')
       sample_results =
     Some \<lparr>game_id = ''game1'', analyzed_player_name = ''Player B'',
           player_color_str = ''Black'', player_cpls = [60, 400, 0],
           move_classification_counts = [(''OK'', 1), (''Blunder !!!'', 1), (''Best'', 1)],
           engine_top1_match_count = 0, engine_topN_match_count = 0,
           pgn_headers = game_headers sample_game\<rparr>"
    using t[where t = "''PLAYER B''"] lower(3,4)
    by (simp add: facts counts)
  have c: "build_game_summary ascii_lower str_strip sample_game ''game1'' (Some ''Player C'')
       sample_results = None"
    using t[where t = "''Player C''"] lower(5,6) by simp
  have d: "build_game_summary ascii_lower str_strip self_play_game ''game2'' (Some ''PLAYER A'')
       two =
     Some \<lparr>game_id = ''game2'', analyzed_player_name = ''Player A'',
           player_color_str = ''White'', player_cpls = [0, 60],
           move_classification_counts = [(''Best'', 1), (''OK'', 1)],
           engine_top1_match_count = 1, engine_topN_match_count = 1,
           pgn_headers = game_headers self_play_game\<rparr>"
    using t2 lower(1,7)
    by (simp add: facts counts)
  from w b c d show ?thesis unfolding two_def by (intro conjI)
qed

text \<open>
  A player who has both colours: the target matches the White header, and the results
  at the odd indices contribute as well.
\<close>

theorem both_headers_match_counterexample:
  "ascii_lower ''Player A''
     = ascii_lower (headers_get (game_headers self_play_game) ''White'' [])
   \<and> build_game_summary ascii_lower str_strip self_play_game ''game2'' (Some ''Player A'')
       sample_results =
     Some \<lparr>game_id = ''game2'', analyzed_player_name = ''Player A'',
           player_color_str = ''White'', player_cpls = [0, 60, 20, 400, 30, 0],
           move_classification_counts =
             [(''Best'', 2), (''OK'', 1), (''Good'', 2), (''Blunder !!!'', 1)],
           engine_top1_match_count = 1, engine_topN_match_count = 2,
           pgn_headers = game_headers self_play_game\<rparr>"
  by code_simp

subsection \<open>Position planning\<close>

lemma set_set_add: "set (set_add x xs) = insert x (set xs)"
  by (auto simp: set_add_def)

lemma distinct_set_add: "distinct xs \<Longrightarrow> distinct (set_add x xs)"
  by (simp add: set_add_def)

lemma length_set_add: "length (set_add x xs) \<le> Suc (length xs)"
  by (simp add: set_add_def)

lemma required_fens_loop_keeps:
  "set acc \<subseteq> set (required_fens_loop board_fen board_push b ms acc)"
proof (induction ms arbitrary: b acc)
  case Nil
  then show ?case by simp
next
  case (Cons m ms)
  show ?case
  proof (cases "move_bool m")
    case True
    have "set acc \<subseteq> set (set_add (board_fen (board_push b m)) (set_add (board_fen b) acc))"
      by (auto simp: set_set_add)
    also have "\<dots> \<subseteq> set (required_fens_loop board_fen board_push (board_push b m) ms
                          (set_add (board_fen (board_push b m)) (set_add (board_fen b) acc)))"
      by (rule Cons.IH)
    finally show ?thesis using True by (simp add: Let_def)
  next
    case False
    then show ?thesis using Cons.IH[of acc b] by simp
  qed
qed

lemma required_fens_loop_distinct:
  "distinct acc \<Longrightarrow> distinct (required_fens_loop board_fen board_push b ms acc)"
  by (induction ms arbitrary: b acc) (auto simp: Let_def distinct_set_add)

lemma required_fens_loop_length:
  "length (required_fens_loop board_fen board_push b ms acc) \<le> length acc + 2 * length ms"
proof (induction ms arbitrary: b acc)
  case Nil
  then show ?case by simp
next
  case (Cons m ms)
  show ?case
  proof (cases "move_bool m")
    case True
    let ?acc2 = "set_add (board_fen (board_push b m)) (set_add (board_fen b) acc)"
    have "length ?acc2 \<le> length acc + 2"
      using length_set_add[of "board_fen (board_push b m)" "set_add (board_fen b) acc"]
        length_set_add[of "board_fen b" acc] by simp
    moreover have "length (required_fens_loop board_fen board_push (board_push b m) ms ?acc2)
                     \<le> length ?acc2 + 2 * length ms"
      by (rule Cons.IH)
    ultimately show ?thesis using True by (simp add: Let_def)
  next
    case False
    then show ?thesis using Cons.IH[of b acc] by simp
  qed
qed

lemma required_fens_loop_covers:
  assumes "list_all move_bool ms"
    and "(before, after) \<in> set (collect_move_fens board_fen board_push b ms)"
  shows "before \<in> set (required_fens_loop board_fen board_push b ms acc)
         \<and> after \<in> set (required_fens_loop board_fen board_push b ms acc)"
  using assms
proof (induction ms arbitrary: b acc)
  case Nil
  then show ?case by simp
next
  case (Cons m ms)
  let ?acc2 = "set_add (board_fen (board_push b m)) (set_add (board_fen b) acc)"
  have step: "required_fens_loop board_fen board_push b (m # ms) acc
                = required_fens_loop board_fen board_push (board_push b m) ms ?acc2"
    using Cons.prems(1) by (simp add: Let_def)
  show ?case
  proof (cases "(before, after) = (board_fen b, board_fen (board_push b m))")
    case True
    have "before \<in> set ?acc2" "after \<in> set ?acc2"
      using True by (simp_all add: set_set_add)
    then show ?thesis
      unfolding step
      using required_fens_loop_keeps[of ?acc2 board_fen board_push "board_push b m" ms] by blast
  next
    case False
    then have "(before, after) \<in> set (collect_move_fens board_fen board_push (board_push b m) ms)"
      using Cons.prems(2) by auto
    then show ?thesis
      unfolding step using Cons.IH Cons.prems(1) by simp
  qed
qed

text \<open>
  Whatever the moves, the result has no duplicates, at most two entries per move and
  one more, and holds the starting position.
\<close>

lemma get_required_fens_size:
  "distinct (get_required_fens board_fen board_push game)
   \<and> length (get_required_fens board_fen board_push game) \<le> 2 * length (game_mainline game) + 1
   \<and> board_fen (game_board game) \<in> set (get_required_fens board_fen board_push game)"
proof -
  let ?start = "set_add (board_fen (game_board game)) []"
  have "board_fen (game_board game) \<in> set ?start" by (simp add: set_add_def)
  then have a: "board_fen (game_board game) \<in> set (get_required_fens board_fen board_push game)"
    unfolding get_required_fens_def
    using required_fens_loop_keeps[of ?start board_fen board_push "game_board game"
            "game_mainline game"] by blast
  have c: "distinct (get_required_fens board_fen board_push game)"
    unfolding get_required_fens_def by (rule required_fens_loop_distinct) (simp add: set_add_def)
  have d: "length (get_required_fens board_fen board_push game)
             \<le> 2 * length (game_mainline game) + 1"
    unfolding get_required_fens_def
    using required_fens_loop_length[of board_fen board_push "game_board game"
            "game_mainline game" ?start]
    by (simp add: set_add_def)
  from a c d show ?thesis by blast
qed

text \<open>For a main line without a null move the planner's result is as claimed.\<close>

lemma get_required_fens_without_null_move:
  assumes "list_all move_bool (game_mainline game)"
  shows "board_fen (game_board game) \<in> set (get_required_fens board_fen board_push game)
         \<and> (\<forall>(before, after) \<in>
               set (collect_move_fens board_fen board_push (game_board game) (game_mainline game)).
               before \<in> set (get_required_fens board_fen board_push game)
               \<and> after \<in> set (get_required_fens board_fen board_push game))
         \<and> distinct (get_required_fens board_fen board_push game)
         \<and> length (get_required_fens board_fen board_push game)
             \<le> 2 * length (game_mainline game) + 1"
proof -
  have covered: "\<forall>(before, after) \<in>
               set (collect_move_fens board_fen board_push (game_board game) (game_mainline game)).
               before \<in> set (get_required_fens board_fen board_push game)
               \<and> after \<in> set (get_required_fens board_fen board_push game)"
  proof (clarify)
    fix before after
    assume "(before, after)
              \<in> set (collect_move_fens board_fen board_push (game_board game) (game_mainline game))"
    from required_fens_loop_covers[OF assms this]
    show "before \<in> set (get_required_fens board_fen board_push game)
          \<and> after \<in> set (get_required_fens board_fen board_push game)"
      unfolding get_required_fens_def .
  qed
  with get_required_fens_size[of board_fen board_push game] show ?thesis by blast
qed

text \<open>
  Claim C9. The planner's set holds the starting position and, for every played move,
  the position before and the position after it, and has at most twice the number of
  moves plus one elements. The code skips a move that is false in a boolean context,
  which the null move is: for a main line that consists of a null move the planner
  returns the starting position only, while \<^verbatim>\<open>collect_move_data_and_fens\<close> records the
  position after the null move as the position to look up.
\<close>

theorem planner_skips_null_move:
  "get_required_fens board_fen board_push
     \<lparr>game_headers = h, game_board = b, game_mainline = [null_move]\<rparr> = [board_fen b]
   \<and> collect_move_fens board_fen board_push b [null_move]
       = [(board_fen b, board_fen (board_push b null_move))]"
  by (simp add: get_required_fens_def set_add_def move_bool_def null_move_def opt_truthy_def)

subsection \<open>Analysis provider\<close>

lemma map_of_dict_set: "map_of (dict_set d k v) = (map_of d)(k \<mapsto> v)"
  by (induction d k v rule: dict_set.induct) auto

lemma keys_dict_set: "set (map fst (dict_set d k v)) = insert k (set (map fst d))"
  by (induction d k v rule: dict_set.induct) auto

lemma distinct_dict_set: "distinct (map fst d) \<Longrightarrow> distinct (map fst (dict_set d k v))"
proof (induction d k v rule: dict_set.induct)
  case (1 k v)
  then show ?case by simp
next
  case (2 k' v' rest k v)
  then show ?case
    using keys_dict_set[of rest k v] by (auto simp del: keys_dict_set)
qed

lemma dict_set_new_key:
  "k \<notin> set (map fst d) \<Longrightarrow> dict_set d k v = d @ [(k, v)]"
  by (induction d k v rule: dict_set.induct) auto

lemma map_of_dict_update:
  "map_of (dict_update d other) = map_of d ++ map_of (rev other)"
  unfolding dict_update_def
proof (induction other arbitrary: d)
  case Nil
  then show ?case by simp
next
  case (Cons kv other)
  have "map_of (foldl (\<lambda>acc kv. dict_set acc (fst kv) (snd kv)) d (kv # other))
          = map_of (dict_set d (fst kv) (snd kv)) ++ map_of (rev other)"
    using Cons.IH[of "dict_set d (fst kv) (snd kv)"] by simp
  also have "\<dots> = map_of d ++ map_of (rev (kv # other))"
    by (cases kv) (simp add: map_of_dict_set map_add_upd_left fun_eq_iff map_add_def
                         split: option.splits)
  finally show ?case .
qed

text \<open>What the engine loop records for a position.\<close>

lemma analyze_fens_loop_appends:
  assumes "analyze_fens_loop sc fens results = Inr out"
    and "distinct fens" and "set fens \<inter> set (map fst results) = {}"
  shows "out = results @
           map (\<lambda>f. (f, case sf_answer sc f (max 1 (sf_multipv_count sc)) of
                           SF_top_moves top_moves \<Rightarrow> Some top_moves | _ \<Rightarrow> None)) fens
         \<and> (\<forall>f \<in> set fens. sf_answer sc f (max 1 (sf_multipv_count sc)) \<noteq> SF_exception)"
  using assms
proof (induction fens arbitrary: results)
  case Nil
  then show ?case by simp
next
  case (Cons f fens)
  have fresh: "f \<notin> set (map fst results)"
    using Cons.prems(3) by auto
  show ?case
  proof (cases "sf_answer sc f (max 1 (sf_multipv_count sc))")
    case SF_invalid
    have run: "analyze_fens_loop sc fens (results @ [(f, None)]) = Inr out"
      using Cons.prems(1) SF_invalid fresh by (simp add: dict_set_new_key)
    have "set fens \<inter> set (map fst (results @ [(f, None)])) = {}"
      using Cons.prems(2,3) by auto
    from Cons.IH[OF run _ this] Cons.prems(2) SF_invalid show ?thesis by simp
  next
    case (SF_top_moves top_moves)
    have run: "analyze_fens_loop sc fens (results @ [(f, Some top_moves)]) = Inr out"
      using Cons.prems(1) SF_top_moves fresh by (simp add: dict_set_new_key)
    have "set fens \<inter> set (map fst (results @ [(f, Some top_moves)])) = {}"
      using Cons.prems(2,3) by auto
    from Cons.IH[OF run _ this] Cons.prems(2) SF_top_moves show ?thesis by simp
  next
    case SF_exception
    then show ?thesis using Cons.prems(1) by simp
  qed
qed

lemma entries_to_cache_map:
  "entries_to_cache provider (map (\<lambda>f. (f, g f)) fens) =
     map (\<lambda>f. cache_entry_for provider f (the (g f))) (filter (\<lambda>f. g f \<noteq> None) fens)"
  by (induction fens) (auto split: option.splits)

lemma dict_update_disjoint:
  "distinct (map fst other) \<Longrightarrow> set (map fst other) \<inter> set (map fst d) = {} \<Longrightarrow>
   dict_update d other = d @ other"
  unfolding dict_update_def
proof (induction other arbitrary: d)
  case Nil
  then show ?case by simp
next
  case (Cons kv other)
  have new: "dict_set d (fst kv) (snd kv) = d @ [kv]"
    using Cons.prems(2) by (simp add: dict_set_new_key)
  have "set (map fst other) \<inter> set (map fst (d @ [kv])) = {}"
    using Cons.prems by auto
  with Cons.IH[of "d @ [kv]"] Cons.prems(1) new show ?case by simp
qed

lemma resolve_required_fens_engine_step:
  assumes "required \<noteq> []"
    and "get_cached_analyses_batch db required
           (provider_analysis_depth provider) (provider_multipv_count provider)
           (provider_stockfish_path provider) (provider_stockfish_version provider)
         = Inr cached"
    and "misses = filter (\<lambda>f. f \<notin> set (map fst cached)) required"
    and "misses \<noteq> []"
    and "analyze_fens_batch sc misses = Inr newly"
    and "merged = dict_update (map (\<lambda>kv. (fst kv, Some (snd kv))) cached) newly"
    and "entries = entries_to_cache provider newly"
  shows "resolve_required_fens provider db sc required =
           (if entries = [] then Inr ((merged, length cached, length misses), db)
            else (case store_analyses_batch db entries of
                    Inl e \<Rightarrow> Inl e
                  | Inr d \<Rightarrow> Inr ((merged, length cached, length misses), d)))"
  using assms(1,2,4,5) unfolding assms(3,6,7)
  by (simp add: resolve_required_fens_def Let_def split: sum.splits)

lemma resolve_required_fens_result:
  assumes ok: "resolve_required_fens provider db sc required = Inr ((analyses, hits, runs), db')"
    and dist: "distinct required"
    and cached: "get_cached_analyses_batch db required
                   (provider_analysis_depth provider) (provider_multipv_count provider)
                   (provider_stockfish_path provider) (provider_stockfish_version provider)
                 = Inr cached"
    and misses: "misses = filter (\<lambda>f. f \<notin> set (map fst cached)) required"
    and answer: "answer = (\<lambda>f. recorded_result (sf_answer sc f (max 1 (sf_multipv_count sc))))"
  shows "analyses = map (\<lambda>kv. (fst kv, Some (snd kv))) cached @ map (\<lambda>f. (f, answer f)) misses"
    and "hits = length cached" and "runs = length misses"
    and "\<forall>f \<in> set misses. sf_answer sc f (max 1 (sf_multipv_count sc)) \<noteq> SF_exception"
    and "store_analyses_batch db
           (map (\<lambda>f. cache_entry_for provider f (the (answer f)))
              (filter (\<lambda>f. answer f \<noteq> None) misses)) = Inr db'"
proof -
  let ?all = "map (\<lambda>kv. (fst kv, Some (snd kv))) cached"
  let ?entries = "map (\<lambda>f. cache_entry_for provider f (the (answer f)))
                    (filter (\<lambda>f. answer f \<noteq> None) misses)"
  have all: "analyses = ?all @ map (\<lambda>f. (f, answer f)) misses \<and> hits = length cached
             \<and> runs = length misses
             \<and> (\<forall>f \<in> set misses. sf_answer sc f (max 1 (sf_multipv_count sc)) \<noteq> SF_exception)
             \<and> store_analyses_batch db ?entries = Inr db'"
  proof (cases "required = []")
    case True
    then have "cached = []" using cached by (simp add: get_cached_analyses_batch_def)
    then show ?thesis using ok True misses
      by (simp add: resolve_required_fens_def store_analyses_batch_def)
  next
    case nonempty: False
    show ?thesis
    proof (cases "misses = []")
      case True
      then show ?thesis using ok nonempty cached misses
        by (simp add: resolve_required_fens_def Let_def store_analyses_batch_def)
    next
      case some_misses: False
      obtain newly where batch: "analyze_fens_batch sc misses = Inr newly"
        using ok nonempty cached misses some_misses
        by (auto simp: resolve_required_fens_def Let_def split: sum.splits)
      then have loop: "analyze_fens_loop sc misses [] = Inr newly"
        using some_misses by (auto simp: analyze_fens_batch_def split: if_splits)
      have dm: "distinct misses" using dist misses by simp
      from analyze_fens_loop_appends[OF loop dm]
      have newly: "newly = map (\<lambda>f. (f, answer f)) misses"
        and noexc: "\<forall>f \<in> set misses. sf_answer sc f (max 1 (sf_multipv_count sc)) \<noteq> SF_exception"
        by (simp_all add: answer recorded_result_def)
      have keys: "map fst newly = misses"
        by (simp add: newly comp_def)
      have "set misses \<inter> set (map fst ?all) = {}"
        using misses by (auto simp: comp_def)
      then have merged: "dict_update ?all newly = ?all @ newly"
        using dict_update_disjoint[of newly ?all] dm keys by simp
      have entries: "entries_to_cache provider newly = ?entries"
        unfolding newly by (rule entries_to_cache_map)
      have rest: "(if ?entries = [] then Inr ((?all @ newly, length cached, length misses), db)
                   else (case store_analyses_batch db ?entries of
                           Inl e \<Rightarrow> Inl e
                         | Inr d \<Rightarrow> Inr ((?all @ newly, length cached, length misses), d)))
                  = Inr ((analyses, hits, runs), db')"
        using resolve_required_fens_engine_step[OF nonempty cached misses some_misses batch
                merged[symmetric] entries[symmetric]] ok
        by simp
      show ?thesis
      proof (cases "?entries = []")
        case True
        then show ?thesis using rest newly noexc
          by (simp add: store_analyses_batch_def)
      next
        case False
        then show ?thesis using rest newly noexc
          by (auto split: sum.splits)
      qed
    qed
  qed
  from all show "analyses = ?all @ map (\<lambda>f. (f, answer f)) misses" by blast
  from all show "hits = length cached" by blast
  from all show "runs = length misses" by blast
  from all show "\<forall>f \<in> set misses. sf_answer sc f (max 1 (sf_multipv_count sc)) \<noteq> SF_exception"
    by blast
  from all show "store_analyses_batch db ?entries = Inr db'" by blast
qed

lemma map_of_lifted:
  "map_of (map (\<lambda>kv. (fst kv, Some (snd kv))) xs) k = map_option Some (map_of xs k)"
  by (induction xs) auto

lemma map_of_tabulated:
  "map_of (map (\<lambda>k. (k, g k)) ks) k = (if k \<in> set ks then Some (g k) else None)"
  by (induction ks) auto

text \<open>
  Claim C2, amended. When \<^verbatim>\<open>get_analyses_for_game\<close> returns, then for every required
  position: a cache hit is bound to its cached evaluation; a cache miss that the
  engine evaluates is bound to the engine's lines; and a cache miss that the engine
  cannot evaluate is bound to \<^verbatim>\<open>None\<close>, so it is present in the mapping and bound to no
  evaluation. No engine call of a returning run raised. The cache afterwards is the
  result of one \<^verbatim>\<open>store_analyses_batch\<close> of exactly the cache misses with engine lines,
  in the order of the required positions; the counters are the number of cache hits
  and of cache misses.
\<close>

theorem analyses_for_game_result:
  assumes ok: "get_analyses_for_game provider db sc board_fen board_push game
                 = Inr ((analyses, hits, runs), db')"
    and required: "required = get_required_fens board_fen board_push game"
    and cached: "get_cached_analyses_batch db required
                   (provider_analysis_depth provider) (provider_multipv_count provider)
                   (provider_stockfish_path provider) (provider_stockfish_version provider)
                 = Inr cached"
    and engine: "engine = (\<lambda>f. sf_answer sc f (max 1 (sf_multipv_count sc)))"
  shows
    "(\<forall>f \<in> set required.
        (\<forall>ls. map_of cached f = Some ls \<longrightarrow> map_of analyses f = Some (Some ls))
        \<and> (map_of cached f = None \<longrightarrow>
             (\<forall>ls. engine f = SF_top_moves ls \<longrightarrow> map_of analyses f = Some (Some ls))
             \<and> (engine f = SF_invalid \<longrightarrow> map_of analyses f = Some None)
             \<and> engine f \<noteq> SF_exception))
     \<and> store_analyses_batch db
          (map (\<lambda>f. cache_entry_for provider f (the (recorded_result (engine f))))
             (filter (\<lambda>f. map_of cached f = None \<and> recorded_result (engine f) \<noteq> None)
                required)) = Inr db'
     \<and> hits = length cached
     \<and> runs = length (filter (\<lambda>f. map_of cached f = None) required)"
proof -
  define misses where "misses = filter (\<lambda>f. f \<notin> set (map fst cached)) required"
  define answer where "answer = (\<lambda>f. recorded_result (sf_answer sc f (max 1 (sf_multipv_count sc))))"
  have dist: "distinct required"
    unfolding required using get_required_fens_size[of board_fen board_push game] by blast
  have ok': "resolve_required_fens provider db sc required = Inr ((analyses, hits, runs), db')"
    using ok by (simp add: get_analyses_for_game_def required)
  note r = resolve_required_fens_result[OF ok' dist cached misses_def answer_def]
  have none_iff: "map_of cached f = None \<longleftrightarrow> f \<notin> set (map fst cached)" for f
    by (simp add: map_of_eq_None_iff)
  have misses': "misses = filter (\<lambda>f. map_of cached f = None) required"
    by (simp add: misses_def none_iff)
  have lookup: "map_of analyses f =
                  (if f \<in> set misses then Some (answer f) else map_option Some (map_of cached f))" for f
    unfolding r(1)
    by (cases "map_of cached f")
       (auto simp: map_of_lifted map_of_tabulated map_add_def misses' split: option.splits)
  have per_fen: "(\<forall>ls. map_of cached f = Some ls \<longrightarrow> map_of analyses f = Some (Some ls))
        \<and> (map_of cached f = None \<longrightarrow>
             (\<forall>ls. engine f = SF_top_moves ls \<longrightarrow> map_of analyses f = Some (Some ls))
             \<and> (engine f = SF_invalid \<longrightarrow> map_of analyses f = Some None)
             \<and> engine f \<noteq> SF_exception)" if "f \<in> set required" for f
  proof (cases "map_of cached f")
    case None
    then have "f \<in> set misses" using that by (simp add: misses')
    then show ?thesis
      using None r(4) lookup[of f] by (auto simp: answer_def engine recorded_result_def)
  next
    case (Some ls)
    then have "f \<notin> set misses" by (simp add: misses')
    then show ?thesis using Some lookup[of f] by simp
  qed
  have entries: "filter (\<lambda>f. answer f \<noteq> None) misses
                   = filter (\<lambda>f. map_of cached f = None \<and> recorded_result (engine f) \<noteq> None) required"
    by (simp add: misses' answer_def engine conj_commute)
  have store: "store_analyses_batch db
          (map (\<lambda>f. cache_entry_for provider f (the (recorded_result (engine f))))
             (filter (\<lambda>f. map_of cached f = None \<and> recorded_result (engine f) \<noteq> None)
                required)) = Inr db'"
    using r(5) unfolding entries by (simp add: answer_def engine)
  show ?thesis
    using per_fen store r(2) r(3) by (simp add: misses')
qed

lemma mating_game_required:
  "get_required_fens string_board_fen string_board_push mating_game
     = [''start'', ''start f2f3'', ''start f2f3 d8h4'']"
  by code_simp

lemma mating_game_run:
  "get_analyses_for_game example_provider warm_cache mate_engine
     string_board_fen string_board_push mating_game
   = Inr ((mating_game_analyses, 1, 2), warm_cache_after)"
  by code_simp

lemma mating_game_cached:
  "get_cached_analyses_batch warm_cache
     (get_required_fens string_board_fen string_board_push mating_game)
     (provider_analysis_depth example_provider) (provider_multipv_count example_provider)
     (provider_stockfish_path example_provider) (provider_stockfish_version example_provider)
   = Inr [(''start'', start_lines)]"
  by code_simp

theorem analyses_for_game_result_witness:
  "map_of mating_game_analyses ''start'' = Some (Some start_lines)
   \<and> map_of mating_game_analyses ''start f2f3'' = Some (Some mating_lines)
   \<and> map_of mating_game_analyses ''start f2f3 d8h4'' = Some None
   \<and> store_analyses_batch warm_cache
        [cache_entry_for example_provider ''start f2f3'' mating_lines] = Inr warm_cache_after"
proof -
  note t = analyses_for_game_result[OF mating_game_run refl mating_game_cached refl]
  have engine:
    "sf_answer mate_engine ''start f2f3'' (max 1 (sf_multipv_count mate_engine))
       = SF_top_moves mating_lines"
    "sf_answer mate_engine ''start f2f3 d8h4'' (max 1 (sf_multipv_count mate_engine))
       = SF_invalid"
    by (simp_all add: mate_engine_def)
  have per_fen: "map_of mating_game_analyses ''start'' = Some (Some start_lines)"
    "map_of mating_game_analyses ''start f2f3'' = Some (Some mating_lines)"
    "map_of mating_game_analyses ''start f2f3 d8h4'' = Some None"
    using t engine by (simp_all add: mating_game_required)
  have store: "store_analyses_batch warm_cache
        [cache_entry_for example_provider ''start f2f3'' mating_lines] = Inr warm_cache_after"
    using t engine by (simp add: mating_game_required recorded_result_def)
  from per_fen store show ?thesis by (intro conjI)
qed

theorem unevaluated_position_is_present_counterexample:
  "get_analyses_for_game example_provider empty_cache mate_engine
     string_board_fen string_board_push stalled_game
   = Inr (([(''mated'', None)], 0, 1), empty_cache)
   \<and> sf_answer mate_engine ''mated'' (max 1 (sf_multipv_count mate_engine)) = SF_invalid
   \<and> ''mated'' \<in> set (map fst [(''mated'', None :: line list option)])"
  by code_simp

end
